theory Spec2Isabelle
  imports Complex_Main "HOL-Library.Multiset" "HOL-Library.Code_Target_Nat"
begin

section \<open>JavaScript values used by the VentureIQ services\<close>

text \<open>
  A JavaScript number is an IEEE-754 double: \<open>Fin a\<close> for a rational \<open>a\<close> that the binary64
  format represents, or one of the three special values. An arithmetic operation returns
  the double nearest to its exact result, and an infinity when that lies beyond the largest
  double. The negative zero is identified with zero (a division by zero takes the sign of its
  dividend alone).
\<close>

datatype jsnum = NaN | NegInf | Fin rat | PosInf

text \<open>Rounding to the nearest integer, a tie to the even one.\<close>

definition round_half_even :: "rat \<Rightarrow> int" where
  "round_half_even r =
     (let f = \<lfloor>r\<rfloor>
      in if r - of_int f < 1 / 2 then f
         else if 1 / 2 < r - of_int f then f + 1
         else if even f then f else f + 1)"

text \<open>
  The binade of \<open>x\<close>: the exponent \<open>e\<close> with \<open>2 powi e \<le> \<bar>x\<bar> < 2 powi (e + 1)\<close>, counted
  by halving or doubling, and kept between -1022, where the subnormal numbers begin, and
  1024, which lies beyond the largest double.
\<close>

fun halvings :: "nat \<Rightarrow> rat \<Rightarrow> nat" where
  "halvings 0 x = 0"
| "halvings (Suc n) x = (if 2 \<le> x then Suc (halvings n (x / 2)) else 0)"

fun doublings :: "nat \<Rightarrow> rat \<Rightarrow> nat" where
  "doublings 0 x = 0"
| "doublings (Suc n) x = (if x < 1 then Suc (doublings n (x * 2)) else 0)"

definition binade :: "rat \<Rightarrow> int" where
  "binade x = (if 1 \<le> \<bar>x\<bar> then int (halvings 1024 \<bar>x\<bar>) else - int (doublings 1022 \<bar>x\<bar>))"

text \<open>
  \<open>fl x\<close> is the double nearest to the real number \<open>x\<close>, a tie going to the even
  significand: the doubles of the binade \<open>e\<close> are the multiples of \<open>2 powi (e - 52)\<close>. A
  result of magnitude \<open>2 ^ 1024\<close> is an infinity. A decimal literal of the source that the format does
  not represent (\<open>0.3\<close>, say) is written \<open>fl (3 / 10)\<close>; an integer or a dyadic literal
  (\<open>10\<close>, \<open>0.25\<close>, \<open>1.5\<close>) is written \<open>Fin\<close> of its value.
\<close>

definition fl :: "rat \<Rightarrow> jsnum" where
  "fl x =
     (let q = 2 powi (binade x - 52);
          y = of_int (round_half_even (x / q)) * q
      in if 2 ^ 1024 \<le> \<bar>y\<bar> then (if 0 < x then PosInf else NegInf) else Fin y)"

text \<open>Truthiness of a number: \<open>NaN\<close> and \<open>0\<close> are falsy.\<close>

definition falsy :: "jsnum \<Rightarrow> bool" where
  "falsy x = (x = NaN \<or> x = Fin 0)"

text \<open>The sign test used by multiplication and division (zero counts as positive).\<close>

definition js_nonneg :: "jsnum \<Rightarrow> bool" where
  "js_nonneg x = (case x of PosInf \<Rightarrow> True | Fin a \<Rightarrow> 0 \<le> a | _ \<Rightarrow> False)"

definition js_neg :: "jsnum \<Rightarrow> jsnum" where
  "js_neg x = (case x of NaN \<Rightarrow> NaN | NegInf \<Rightarrow> PosInf | PosInf \<Rightarrow> NegInf
     | Fin a \<Rightarrow> Fin (- a))"

definition js_add :: "jsnum \<Rightarrow> jsnum \<Rightarrow> jsnum" where
  "js_add x y =
     (case (x, y) of
        (NaN, _) \<Rightarrow> NaN
      | (_, NaN) \<Rightarrow> NaN
      | (Fin a, Fin b) \<Rightarrow> fl (a + b)
      | (PosInf, NegInf) \<Rightarrow> NaN
      | (NegInf, PosInf) \<Rightarrow> NaN
      | (PosInf, _) \<Rightarrow> PosInf
      | (_, PosInf) \<Rightarrow> PosInf
      | (NegInf, _) \<Rightarrow> NegInf
      | (_, NegInf) \<Rightarrow> NegInf)"

definition js_sub :: "jsnum \<Rightarrow> jsnum \<Rightarrow> jsnum" where
  "js_sub x y = js_add x (js_neg y)"

definition js_mul :: "jsnum \<Rightarrow> jsnum \<Rightarrow> jsnum" where
  "js_mul x y =
     (case (x, y) of
        (NaN, _) \<Rightarrow> NaN
      | (_, NaN) \<Rightarrow> NaN
      | (Fin a, Fin b) \<Rightarrow> fl (a * b)
      | _ \<Rightarrow> (if x = Fin 0 \<or> y = Fin 0 then NaN
              else if js_nonneg x = js_nonneg y then PosInf else NegInf))"

definition js_div :: "jsnum \<Rightarrow> jsnum \<Rightarrow> jsnum" where
  "js_div x y =
     (case (x, y) of
        (NaN, _) \<Rightarrow> NaN
      | (_, NaN) \<Rightarrow> NaN
      | (Fin a, Fin b) \<Rightarrow>
          (if b \<noteq> 0 then fl (a / b)
           else if a = 0 then NaN
           else if 0 < a then PosInf else NegInf)
      | (Fin a, _) \<Rightarrow> Fin 0
      | (_, Fin b) \<Rightarrow> (if js_nonneg x = js_nonneg y then PosInf else NegInf)
      | _ \<Rightarrow> NaN)"

text \<open>Comparisons: every comparison with \<open>NaN\<close> is false.\<close>

definition js_lt :: "jsnum \<Rightarrow> jsnum \<Rightarrow> bool" where
  "js_lt x y =
     (case (x, y) of
        (NaN, _) \<Rightarrow> False
      | (_, NaN) \<Rightarrow> False
      | (Fin a, Fin b) \<Rightarrow> a < b
      | (NegInf, NegInf) \<Rightarrow> False
      | (NegInf, _) \<Rightarrow> True
      | (PosInf, _) \<Rightarrow> False
      | (_, PosInf) \<Rightarrow> True
      | (_, NegInf) \<Rightarrow> False)"

definition js_gt :: "jsnum \<Rightarrow> jsnum \<Rightarrow> bool" where
  "js_gt x y = js_lt y x"

definition js_ge :: "jsnum \<Rightarrow> jsnum \<Rightarrow> bool" where
  "js_ge x y = (x \<noteq> NaN \<and> y \<noteq> NaN \<and> \<not> js_lt x y)"

definition js_le :: "jsnum \<Rightarrow> jsnum \<Rightarrow> bool" where
  "js_le x y = js_ge y x"

text \<open>\<open>Math.round\<close> rounds to the nearest integer, a half towards plus infinity.\<close>

definition Math_round :: "jsnum \<Rightarrow> jsnum" where
  "Math_round x = (case x of Fin a \<Rightarrow> Fin (of_int \<lfloor>a + 1 / 2\<rfloor>) | _ \<Rightarrow> x)"

definition Math_min :: "jsnum \<Rightarrow> jsnum \<Rightarrow> jsnum" where
  "Math_min x y = (if x = NaN \<or> y = NaN then NaN else if js_lt y x then y else x)"

definition Math_max :: "jsnum \<Rightarrow> jsnum \<Rightarrow> jsnum" where
  "Math_max x y = (if x = NaN \<or> y = NaN then NaN else if js_lt x y then y else x)"

text \<open>
  \<open>v || d\<close> on a property that holds a number or is absent (\<open>None\<close> is
  \<open>undefined\<close>): the default replaces an absent, \<open>NaN\<close> or zero value.
\<close>

definition js_or :: "jsnum option \<Rightarrow> jsnum \<Rightarrow> jsnum" where
  "js_or v d = (case v of None \<Rightarrow> d | Some x \<Rightarrow> if falsy x then d else x)"


text \<open>
  A JavaScript string is its sequence of UTF-16 code units. \<open>str\<close> writes an ASCII
  literal; the rupee sign is the single code unit \<open>8377\<close>.
\<close>

type_synonym jsstring = "nat list"

definition str :: "string \<Rightarrow> jsstring" where
  "str s = map of_char s"

definition rupee :: nat where
  "rupee = 8377"

text \<open>\<open>s.includes(sub)\<close>: \<open>sub\<close> occurs in \<open>s\<close> as a contiguous block.\<close>

fun startsWith :: "jsstring \<Rightarrow> jsstring \<Rightarrow> bool" where
  "startsWith s [] = True"
| "startsWith [] (c # cs) = False"
| "startsWith (x # xs) (c # cs) = (x = c \<and> startsWith xs cs)"

fun js_includes :: "jsstring \<Rightarrow> jsstring \<Rightarrow> bool" where
  "js_includes [] sub = startsWith [] sub"
| "js_includes (x # xs) sub = (startsWith (x # xs) sub \<or> js_includes xs sub)"

text \<open>
  \<open>toLowerCase\<close>: the letters A to Z, and the two code units outside ASCII whose lower-case
  form has an ASCII letter (the Kelvin sign, and the dotted capital I, which becomes two code
  units). The lower-case forms of all other code units lie outside ASCII, where none of
  the searches of these services looks; they are left as they are.
\<close>

definition lower_unit :: "nat \<Rightarrow> jsstring" where
  "lower_unit c =
     (if 65 \<le> c \<and> c \<le> 90 then [c + 32]
      else if c = 8490 then [107]
      else if c = 304 then [105, 775]
      else [c])"

definition toLowerCase :: "jsstring \<Rightarrow> jsstring" where
  "toLowerCase s = concat (map lower_unit s)"

text \<open>The class of the decimal digits, and the two global replacements that delete
  every code unit outside the class (the first one keeps the full stop too).\<close>

definition is_digit :: "nat \<Rightarrow> bool" where
  "is_digit c = (48 \<le> c \<and> c \<le> 57)"

definition keep_digits_dots :: "jsstring \<Rightarrow> jsstring" where
  "keep_digits_dots s = filter (\<lambda>c. is_digit c \<or> c = 46) s"

definition keep_digits :: "jsstring \<Rightarrow> jsstring" where
  "keep_digits s = filter is_digit s"

text \<open>\<open>s.replace('%', '')\<close> deletes the first percent sign only.\<close>

definition drop_percent :: "jsstring \<Rightarrow> jsstring" where
  "drop_percent s = remove1 37 s"

definition digits_value :: "jsstring \<Rightarrow> nat" where
  "digits_value ds = foldl (\<lambda>acc d. acc * 10 + (d - 48)) 0 ds"

text \<open>
  \<open>parseFloat\<close>: white space is skipped, then the longest prefix that is a decimal
  literal is read (a sign, \<open>Infinity\<close>, or digits with an optional fraction and an optional
  exponent); \<open>NaN\<close> when there is none. The result is the double nearest to the value of the
  literal (the language allows an engine to cut a literal of more than 20 significant digits
  before it rounds; the engines in use round the full literal).
\<close>

definition is_space :: "nat \<Rightarrow> bool" where
  "is_space c =
     (c \<in> {9, 10, 11, 12, 13, 32, 160, 5760, 8232, 8233, 8239, 8287, 12288, 65279}
      \<or> (8192 \<le> c \<and> c \<le> 8202))"

definition parse_exponent :: "jsstring \<Rightarrow> int" where
  "parse_exponent r =
     (case r of
        [] \<Rightarrow> 0
      | c # r1 \<Rightarrow>
          if c = 101 \<or> c = 69 then
            (case r1 of
               [] \<Rightarrow> 0
             | d # r2 \<Rightarrow>
                 if d = 45 then
                   (if takeWhile is_digit r2 = [] then 0
                    else - int (digits_value (takeWhile is_digit r2)))
                 else if d = 43 then int (digits_value (takeWhile is_digit r2))
                 else int (digits_value (takeWhile is_digit r1)))
          else 0)"

definition scale10 :: "rat \<Rightarrow> int \<Rightarrow> rat" where
  "scale10 m e = (if 0 \<le> e then m * 10 ^ nat e else m / 10 ^ nat (- e))"

definition parseFloat :: "jsstring \<Rightarrow> jsnum" where
  "parseFloat s =
     (let s1 = dropWhile is_space s;
          negative = (case s1 of [] \<Rightarrow> False | c # _ \<Rightarrow> c = 45);
          s2 = (case s1 of [] \<Rightarrow> [] | c # r \<Rightarrow> if c = 45 \<or> c = 43 then r else s1)
      in if startsWith s2 (str ''Infinity'') then (if negative then NegInf else PosInf)
         else
           (let ip = takeWhile is_digit s2;
                r1 = dropWhile is_digit s2;
                dotted = (case r1 of [] \<Rightarrow> False | c # _ \<Rightarrow> c = 46);
                fp = (if dotted then takeWhile is_digit (tl r1) else []);
                r2 = (if dotted then dropWhile is_digit (tl r1) else r1)
            in if ip = [] \<and> fp = [] then NaN
               else
                 (let m = of_nat (digits_value ip) + of_nat (digits_value fp) / 10 ^ length fp;
                      v = scale10 m (parse_exponent r2)
                  in fl (if negative then - v else v))))"

text \<open>
  \<open>parseInt\<close> on a string of decimal digits, as every call in the services passes the
  result of the replacement that keeps the digits; \<open>NaN\<close> for the empty string, and for
  \<open>undefined\<close> (the optional chaining on an absent property).
\<close>

definition parseInt :: "jsstring option \<Rightarrow> jsnum" where
  "parseInt ds = (case ds of None \<Rightarrow> NaN | Some d \<Rightarrow> if d = [] then NaN else fl (of_nat (digits_value d)))"

section \<open>The company record\<close>

text \<open>
  The structured data the agents read: every property is a free-form string, or absent.
\<close>

record documentData =
  companyName :: "jsstring option"
  industry :: "jsstring option"
  revenue :: "jsstring option"
  customers :: "jsstring option"
  teamSize :: "jsstring option"
  growthRate :: "jsstring option"
  burnRate :: "jsstring option"
  runway :: "jsstring option"
  marketSize :: "jsstring option"

section \<open>Outcomes of the analysis agents\<close>

text \<open>
  An insight is an object \<open>{type, insight, implication, impact}\<close>. Every producer in the
  services writes an integer literal for \<open>impact\<close>; the model admits any finite number, and
  \<open>None\<close> for a missing property.
\<close>

record insight =
  itype :: string
  insight_text :: string
  implication :: string
  impact :: "rat option"

text \<open>The sort key \<open>impact || 0\<close> of the comparators that order insights.\<close>

definition impactOr0 :: "insight \<Rightarrow> rat" where
  "impactOr0 a = (case impact a of None \<Rightarrow> 0 | Some v \<Rightarrow> v)"

text \<open>
  The result object of an agent, reduced to the properties that the orchestrator's score,
  insight and recommendation functions read. A property the object does not have is
  \<open>None\<close>. The risk agent writes \<open>riskScore\<close>, the three others \<open>score\<close>.
\<close>

record outcome =
  score :: "jsnum option"
  riskScore :: "jsnum option"
  confidence :: "jsnum option"
  insights :: "insight list option"

text \<open>The argument of \<open>synthesizeResults\<close>.\<close>

record agentResults =
  document :: documentData
  market :: outcome
  risk :: outcome
  competitive :: outcome
  portfolio :: outcome

section \<open>The numeric parsers of the agents\<close>

text \<open>
  \<open>RiskAssessmentAgent.parseNumeric\<close>. \<open>MarketResearchAgent.parseFinancialValue\<close> and
  \<open>PortfolioImpactAgent.parseNumeric\<close> have the same body.
\<close>

definition parseNumeric :: "jsstring option \<Rightarrow> jsnum" where
  "parseNumeric v =
     (case v of
        None \<Rightarrow> Fin 0
      | Some val \<Rightarrow>
          if val = [] then Fin 0
          else
            (let cleaned = keep_digits_dots val;
                 number = js_or (Some (parseFloat cleaned)) (Fin 0)
             in if js_includes (toLowerCase val) (str ''cr'') then js_mul number (Fin 10000000)
                else if js_includes (toLowerCase val) (str ''l'') then js_mul number (Fin 100000)
                else if js_includes (toLowerCase val) (str ''k'') then js_mul number (Fin 1000)
                else number))"

text \<open>\<open>CompetitiveIntelligenceAgent.parseNumeric\<close>: the same, with a branch for \<open>m\<close>.\<close>

definition competitive_parseNumeric :: "jsstring option \<Rightarrow> jsnum" where
  "competitive_parseNumeric v =
     (case v of
        None \<Rightarrow> Fin 0
      | Some val \<Rightarrow>
          if val = [] then Fin 0
          else
            (let cleaned = keep_digits_dots val;
                 number = js_or (Some (parseFloat cleaned)) (Fin 0)
             in if js_includes (toLowerCase val) (str ''cr'') then js_mul number (Fin 10000000)
                else if js_includes (toLowerCase val) (str ''l'') then js_mul number (Fin 100000)
                else if js_includes (toLowerCase val) (str ''m'') then js_mul number (Fin 1000000)
                else if js_includes (toLowerCase val) (str ''k'') then js_mul number (Fin 1000)
                else number))"

text \<open>\<open>DocumentAgent.parseNumericValue\<close>.\<close>

definition parseNumericValue :: "jsstring option \<Rightarrow> jsnum" where
  "parseNumericValue v =
     (case v of
        None \<Rightarrow> Fin 0
      | Some valueString \<Rightarrow>
          if valueString = [] then Fin 0
          else
            (let cleaned = keep_digits_dots valueString;
                 number = js_or (Some (parseFloat cleaned)) (Fin 0)
             in if js_includes (toLowerCase valueString) (str ''b'') then js_mul number (Fin 1000000)
                else if js_includes (toLowerCase valueString) (str ''m'') then js_mul number (Fin 1000)
                else if js_includes (toLowerCase valueString) (str ''k'') then number
                else number))"

text \<open>\<open>parseGrowthRate\<close> of the risk agent (\<open>parsePercentage\<close> of the market agent).\<close>

definition parseGrowthRate :: "jsstring option \<Rightarrow> jsnum" where
  "parseGrowthRate growth =
     (case growth of
        None \<Rightarrow> Fin 0
      | Some g \<Rightarrow> if g = [] then Fin 0 else js_div (parseFloat (drop_percent g)) (Fin 100))"

text \<open>
  The expression \<open>parseInt(field?.replace(/[^0-9]/g, '')) || 0\<close> that reads the team size
  and the runway.
\<close>

definition parseCount :: "jsstring option \<Rightarrow> jsnum" where
  "parseCount field = js_or (Some (parseInt (map_option keep_digits field))) (Fin 0)"

section \<open>The market research agent\<close>

text \<open>
  \<open>calculatePercentile(value, benchmark)\<close>. The company metric is a number; the benchmark is
  a property of a benchmark table, which some tables do not have (\<open>None\<close>). The guard
  \<open>!value || !benchmark\<close> is a function of its own, so that the division is seen to be
  evaluated behind it only.
\<close>

definition percentileGuard :: "jsnum option \<Rightarrow> jsnum option \<Rightarrow> bool" where
  "percentileGuard v benchmark =
     ((case v of None \<Rightarrow> True | Some x \<Rightarrow> falsy x)
      \<or> (case benchmark of None \<Rightarrow> True | Some b \<Rightarrow> falsy b))"

definition percentileOfRatio :: "jsnum \<Rightarrow> jsnum" where
  "percentileOfRatio ratio =
     (if js_ge ratio (Fin 2) then Fin 95
      else if js_ge ratio (Fin (15 / 10)) then Fin 85
      else if js_ge ratio (fl (12 / 10)) then Fin 75
      else if js_ge ratio (Fin 1) then Fin 60
      else if js_ge ratio (fl (8 / 10)) then Fin 40
      else if js_ge ratio (fl (6 / 10)) then Fin 25
      else Fin 15)"

definition to_number :: "jsnum option \<Rightarrow> jsnum" where
  "to_number v = (case v of None \<Rightarrow> NaN | Some x \<Rightarrow> x)"

definition calculatePercentile :: "jsnum option \<Rightarrow> jsnum option \<Rightarrow> jsnum" where
  "calculatePercentile v benchmark =
     (if percentileGuard v benchmark then Fin 50
      else percentileOfRatio (js_div (to_number v) (to_number benchmark)))"

text \<open>\<open>MarketResearchAgent.getFallbackAnalysis\<close>: the properties of the outcome.\<close>

definition market_getFallbackAnalysis :: outcome where
  "market_getFallbackAnalysis =
     \<lparr>score = Some (Fin 5), riskScore = None, confidence = Some (Fin 50), insights = Some []\<rparr>"

section \<open>The risk assessment agent\<close>

text \<open>The feature object of \<open>engineerFeatures\<close>, every feature on a scale from 0 to 1.\<close>

record features =
  revenue_growth_rate :: jsnum
  burn_efficiency :: jsnum
  team_experience :: jsnum
  market_timing :: jsnum
  unit_economics :: jsnum
  runway_months :: jsnum
  customer_traction :: jsnum

definition calculateUnitEconomicsScore :: "documentData \<Rightarrow> jsnum" where
  "calculateUnitEconomicsScore documentData =
     (let rev = parseNumeric (revenue documentData);
          cust = parseNumeric (customers documentData)
      in if js_gt rev (Fin 0) \<and> js_gt cust (Fin 0) then
           (let arpu = js_div rev cust
            in if js_gt arpu (Fin 100) then fl (8 / 10) else fl (4 / 10))
         else Fin (5 / 10))"

definition engineerFeatures :: "documentData \<Rightarrow> features" where
  "engineerFeatures documentData =
     (let rev = parseNumeric (revenue documentData);
          growth = parseGrowthRate (growthRate documentData);
          team = parseCount (teamSize documentData);
          months = parseCount (runway documentData);
          burn = parseNumeric (burnRate documentData)
      in \<lparr>revenue_growth_rate = Math_min (Fin 1) (js_div growth (Fin (5 / 10))),
          burn_efficiency =
            (if js_gt rev (Fin 0) \<and> js_gt burn (Fin 0) then Math_min (Fin 1) (js_div rev burn)
             else Fin (5 / 10)),
          team_experience = Math_min (Fin 1) (js_div team (Fin 20)),
          market_timing = fl (7 / 10),
          unit_economics = calculateUnitEconomicsScore documentData,
          runway_months = Math_min (Fin 1) (js_div months (Fin 24)),
          customer_traction = (if js_gt rev (Fin 100000) then fl (8 / 10) else fl (4 / 10))\<rparr>)"

text \<open>The weights of \<open>initializeMLModel\<close>, in the order of the object literal.\<close>

definition mlWeights :: "((features \<Rightarrow> jsnum) \<times> jsnum) list" where
  "mlWeights =
     [(revenue_growth_rate, Fin (25 / 100)), (burn_efficiency, fl (20 / 100)),
      (team_experience, fl (15 / 100)), (market_timing, fl (15 / 100)),
      (unit_economics, fl (10 / 100)), (runway_months, fl (10 / 100)),
      (customer_traction, fl (5 / 100))]"

text \<open>
  \<open>predictSuccessProbability\<close>: the property \<open>probability\<close> of its result. The other
  properties of the result are not read by the score, the confidence or the insights.
\<close>

definition predictSuccessProbability :: "documentData \<Rightarrow> jsnum" where
  "predictSuccessProbability documentData =
     (let feats = engineerFeatures documentData;
          probabilityScore =
            fold (\<lambda>(feature, weight) total. js_add total (js_mul (feature feats) weight))
              mlWeights (Fin 0);
          successProbability = Math_max (fl (1 / 10)) (Math_min (fl (9 / 10)) probabilityScore)
      in Math_round (js_mul successProbability (Fin 100)))"

record redFlag =
  flagType :: string
  severity :: string
  flag :: string

definition detectRedFlags :: "documentData \<Rightarrow> redFlag list" where
  "detectRedFlags documentData =
     (let months = parseCount (runway documentData);
          rev = parseNumeric (revenue documentData);
          burn = parseNumeric (burnRate documentData);
          growth = parseGrowthRate (growthRate documentData);
          team = parseCount (teamSize documentData)
      in (if js_lt months (Fin 6)
          then [\<lparr>flagType = ''Financial'', severity = ''Critical'', flag = ''Runway under 6 months''\<rparr>]
          else [])
       @ (if js_gt burn (js_mul rev (Fin 5)) \<and> js_gt rev (Fin 0)
          then [\<lparr>flagType = ''Financial'', severity = ''High'',
                 flag = ''Extremely high burn-to-revenue ratio''\<rparr>]
          else [])
       @ (if js_gt growth (Fin (5 / 10))
          then [\<lparr>flagType = ''Growth'', severity = ''Medium'',
                 flag = ''Potentially unsustainable growth rate''\<rparr>]
          else [])
       @ (if js_lt team (Fin 3)
          then [\<lparr>flagType = ''Team'', severity = ''Medium'', flag = ''Very small team''\<rparr>]
          else [])
       @ (if (case marketSize documentData of
                None \<Rightarrow> False
              | Some m \<Rightarrow> js_includes m (str ''T'') \<or> js_includes m (str ''trillion''))
          then [\<lparr>flagType = ''Market'', severity = ''Low'',
                 flag = ''Potentially inflated market size''\<rparr>]
          else []))"

definition calculateFinalRiskScore :: "jsnum \<Rightarrow> redFlag list \<Rightarrow> jsnum" where
  "calculateFinalRiskScore probability redFlags =
     (let riskScore0 = js_sub (Fin 10) (js_div probability (Fin 10));
          criticalFlags = length (filter (\<lambda>f. severity f = ''Critical'') redFlags);
          highFlags = length (filter (\<lambda>f. severity f = ''High'') redFlags);
          riskScore1 =
            js_add riskScore0
              (js_add (js_mul (Fin (of_nat criticalFlags)) (Fin (15 / 10)))
                 (js_mul (Fin (of_nat highFlags)) (Fin 1)))
      in Math_max (Fin 1)
           (Math_min (Fin 10) (js_div (Math_round (js_mul riskScore1 (Fin 10))) (Fin 10))))"

text \<open>
  The numbers that the insight templates of the risk agent render are whole numbers (a
  rounded probability, two counts) or \<open>NaN\<close>; \<open>show_jsnum\<close> renders those.
\<close>

fun show_nat :: "nat \<Rightarrow> string" where
  "show_nat n =
     (if n < 10 then [char_of (48 + n)] else show_nat (n div 10) @ [char_of (48 + n mod 10)])"

definition show_jsnum :: "jsnum \<Rightarrow> string" where
  "show_jsnum x =
     (case x of
        NaN \<Rightarrow> ''NaN''
      | PosInf \<Rightarrow> ''Infinity''
      | NegInf \<Rightarrow> ''-Infinity''
      | Fin a \<Rightarrow> if a < 0 then ''-'' @ show_nat (nat \<lfloor>- a\<rfloor>) else show_nat (nat \<lfloor>a\<rfloor>))"

definition generateRiskInsights :: "jsnum \<Rightarrow> redFlag list \<Rightarrow> insight list" where
  "generateRiskInsights probability redFlags =
     (let criticalFlags = length (filter (\<lambda>f. severity f = ''Critical'') redFlags)
      in sort_key (\<lambda>a. - impactOr0 a)
           ([\<lparr>itype = ''prediction'',
              insight_text = show_jsnum probability @ ''% success probability based on ML analysis'',
              implication =
                (if js_gt probability (Fin 70) then ''Strong success indicators''
                 else ''Moderate risk profile''),
              impact = Some (if js_gt probability (Fin 70) then 8 else 6)\<rparr>]
            @ (if 0 < length redFlags then
                 [\<lparr>itype = ''warning'',
                   insight_text =
                     show_nat (length redFlags) @ '' risk factors identified (''
                       @ show_nat criticalFlags @ '' critical)'',
                   implication =
                     (if 0 < criticalFlags then ''Immediate attention required''
                      else ''Monitor and mitigate risks''),
                   impact = Some (if 0 < criticalFlags then 9 else 5)\<rparr>]
               else [])
            @ [\<lparr>itype = ''risk-profile'',
                insight_text =
                  ''Primary risks: Financial runway, market competition, execution challenges'',
                implication = ''Balanced risk mitigation strategy recommended'',
                impact = Some 6\<rparr>]))"

definition risk_getFallbackAnalysis :: outcome where
  "risk_getFallbackAnalysis =
     \<lparr>score = None, riskScore = Some (Fin 5), confidence = Some (Fin 60),
      insights =
        Some [\<lparr>itype = ''fallback'',
                insight_text = ''Risk analysis completed with limited data'',
                implication = ''More comprehensive data needed for detailed assessment'',
                impact = Some 5\<rparr>]\<rparr>"

text \<open>
  \<open>RiskAssessmentAgent.analyze\<close>. The argument is the company record, or \<open>None\<close> when the
  caller passes \<open>undefined\<close>: reading a property of it throws inside the \<open>try\<close> block, and
  the \<open>catch\<close> block returns the fallback. On a record of strings no step throws. The
  result carries the four properties of the outcome; the answer of the text service (the
  risk factors) enters none of them.
\<close>

definition RiskAssessmentAgent_analyze :: "documentData option \<Rightarrow> outcome" where
  "RiskAssessmentAgent_analyze input =
     (case input of
        None \<Rightarrow> risk_getFallbackAnalysis
      | Some documentData \<Rightarrow>
          (let successPrediction = predictSuccessProbability documentData;
               redFlags = detectRedFlags documentData
           in \<lparr>score = None,
               riskScore = Some (calculateFinalRiskScore successPrediction redFlags),
               confidence = Some (Fin 85),
               insights = Some (generateRiskInsights successPrediction redFlags)\<rparr>))"

section \<open>The fallbacks of the competitive and the portfolio agent\<close>

definition competitive_getFallbackAnalysis :: outcome where
  "competitive_getFallbackAnalysis =
     \<lparr>score = Some (Fin 5), riskScore = None, confidence = Some (Fin 60),
      insights =
        Some [\<lparr>itype = ''fallback'',
                insight_text = ''Competitive analysis completed with limited data'',
                implication = ''Additional market research recommended'',
                impact = Some 5\<rparr>]\<rparr>"

definition portfolio_getFallbackAnalysis :: outcome where
  "portfolio_getFallbackAnalysis =
     \<lparr>score = Some (Fin 5), riskScore = None, confidence = Some (Fin 60),
      insights =
        Some [\<lparr>itype = ''fallback'',
                insight_text = ''Portfolio analysis completed with limited data'',
                implication = ''Additional financial modeling recommended'',
                impact = Some 5\<rparr>]\<rparr>"

section \<open>The orchestrator's synthesis (multiAgentOrchestrator)\<close>

datatype agentKey = MarketKey | RiskKey | CompetitiveKey | PortfolioKey

text \<open>The object literal \<open>weights\<close> of \<open>calculateInvestmentScore\<close>, in key order.\<close>

definition weights :: "(agentKey \<times> jsnum) list" where
  "weights =
     [(MarketKey, Fin (25 / 100)), (RiskKey, fl (30 / 100)),
      (CompetitiveKey, fl (20 / 100)), (PortfolioKey, Fin (25 / 100))]"

text \<open>The object literal \<open>scores\<close>: defaults by \<open>||\<close>, the risk score inverted.\<close>

fun scores :: "agentResults \<Rightarrow> agentKey \<Rightarrow> jsnum" where
  "scores results MarketKey = js_or (score (market results)) (Fin 7)"
| "scores results RiskKey = js_sub (Fin 10) (js_or (riskScore (risk results)) (Fin 5))"
| "scores results CompetitiveKey = js_or (score (competitive results)) (Fin 6)"
| "scores results PortfolioKey = js_or (score (portfolio results)) (Fin 7)"

text \<open>The local constant \<open>weightedScore\<close>: the \<open>reduce\<close> over the keys of \<open>weights\<close>.\<close>

definition weightedScore :: "agentResults \<Rightarrow> jsnum" where
  "weightedScore results =
     fold (\<lambda>(key, w) total. js_add total (js_mul (scores results key) w)) weights (Fin 0)"

definition calculateInvestmentScore :: "agentResults \<Rightarrow> jsnum" where
  "calculateInvestmentScore results =
     js_div (Math_round (js_mul (weightedScore results) (Fin 10))) (Fin 10)"

record recommendation =
  decision :: string
  rec_confidence :: string
  reasoning :: string

text \<open>
  The branches of \<open>generateRecommendation\<close> after its first statement
  \<open>const score = this.calculateInvestmentScore(results)\<close>.
\<close>

definition recommendationFor :: "jsnum \<Rightarrow> recommendation" where
  "recommendationFor s =
     (if js_ge s (Fin 8) then
        \<lparr>decision = ''STRONG BUY'', rec_confidence = ''High'',
         reasoning = ''Multiple agents confirm strong investment opportunity with minimal risks''\<rparr>
      else if js_ge s (Fin 6) then
        \<lparr>decision = ''PROCEED WITH CAUTION'', rec_confidence = ''Medium'',
         reasoning = ''Mixed signals from agents suggest thorough due diligence required''\<rparr>
      else
        \<lparr>decision = ''PASS'', rec_confidence = ''High'',
         reasoning = ''Multiple risk factors identified across agent analysis''\<rparr>)"

definition generateRecommendation :: "agentResults \<Rightarrow> recommendation" where
  "generateRecommendation results = recommendationFor (calculateInvestmentScore results)"

text \<open>
  \<open>extractKeyInsights\<close>: the insight arrays that are present are appended in the order
  market, risk, competitive, portfolio; the array is sorted with the comparator
  \<open>(b.impact || 0) - (a.impact || 0)\<close> and cut to its first five elements.
  \<open>Array.prototype.sort\<close> is stable, and so is \<open>sort_key\<close>.
\<close>

definition pushed :: "outcome \<Rightarrow> insight list" where
  "pushed res = (case insights res of None \<Rightarrow> [] | Some xs \<Rightarrow> xs)"

definition collectedInsights :: "agentResults \<Rightarrow> insight list" where
  "collectedInsights results =
     pushed (market results) @ pushed (risk results) @ pushed (competitive results)
       @ pushed (portfolio results)"

definition extractKeyInsights :: "agentResults \<Rightarrow> insight list" where
  "extractKeyInsights results =
     take 5 (sort_key (\<lambda>a. - impactOr0 a) (collectedInsights results))"

text \<open>
  \<open>synthesizeResults\<close>, with the three properties of the report that the score, the
  insights and the recommendation determine. The executive summary, the consolidated risks
  and the next steps are text and lists built from properties this model does not carry.
\<close>

record synthesis =
  investmentScore :: jsnum
  keyInsights :: "insight list"
  recommendation :: recommendation

definition synthesizeResults :: "agentResults \<Rightarrow> synthesis" where
  "synthesizeResults agentResults =
     \<lparr>investmentScore = calculateInvestmentScore agentResults,
      keyInsights = extractKeyInsights agentResults,
      recommendation = generateRecommendation agentResults\<rparr>"

section \<open>The orchestrator's run (analyzeStartup)\<close>

text \<open>
  The fallbacks of the orchestrator, reduced to the properties of the outcome: none of them
  writes a \<open>confidence\<close>.
\<close>

definition getMarketFallback :: "documentData \<Rightarrow> outcome" where
  "getMarketFallback documentData =
     \<lparr>score = Some (Fin 5), riskScore = None, confidence = None, insights = Some []\<rparr>"

definition getRiskFallback :: "documentData \<Rightarrow> outcome" where
  "getRiskFallback documentData =
     \<lparr>score = None, riskScore = Some (Fin 5), confidence = None, insights = Some []\<rparr>"

definition getCompetitiveFallback :: "documentData \<Rightarrow> outcome" where
  "getCompetitiveFallback documentData =
     \<lparr>score = Some (Fin 5), riskScore = None, confidence = None, insights = Some []\<rparr>"

definition getPortfolioFallback :: "documentData \<Rightarrow> outcome" where
  "getPortfolioFallback documentData =
     \<lparr>score = Some (Fin 5), riskScore = None, confidence = None, insights = Some []\<rparr>"

text \<open>
  The object \<open>this.analysisStatus\<close>: one object for each orchestrator, written by every
  call of \<open>analyzeStartup\<close> on it.
\<close>

record analysisStatus =
  st_document :: string
  st_market :: string
  st_risk :: string
  st_competitive :: string
  st_portfolio :: string

text \<open>
  The argument \<open>progressCallback\<close> of \<open>analyzeStartup\<close>: absent (\<open>None\<close>), or a function
  of the caller. Of a call \<open>progressCallback(message, percent)\<close> the model keeps whether it
  throws. A run passes each message at most once, so a function of the message and the
  percentage describes what any callback does in one run.
\<close>

type_synonym progressCallback = "(string \<Rightarrow> nat \<Rightarrow> bool) option"

text \<open>The statement \<open>progressCallback && progressCallback(message, percent)\<close> throws.\<close>

definition throws :: "progressCallback \<Rightarrow> string \<Rightarrow> nat \<Rightarrow> bool" where
  "throws progressCallback message percent =
     (case progressCallback of None \<Rightarrow> False | Some f \<Rightarrow> f message percent)"

text \<open>
  The promise of an agent's \<open>analyze\<close> settles with a result (\<open>Inr\<close>) or with an
  error (\<open>Inl\<close>, the message). The four functions below are what \<open>runMarketAnalysis\<close>
  and its three siblings do once the promise has settled. In the \<open>try\<close> block the key of
  the status object is set to \<open>completed\<close>, the callback is called and the result is
  returned; when the promise has rejected or the callback throws, the \<open>catch\<close> block sets
  the key to \<open>failed\<close> and returns the fallback.
\<close>

definition runMarketAnalysis ::
    "string + outcome \<Rightarrow> progressCallback \<Rightarrow> documentData \<Rightarrow> analysisStatus
      \<Rightarrow> outcome \<times> analysisStatus" where
  "runMarketAnalysis settled progressCallback documentData st =
     (case settled of
        Inr result \<Rightarrow>
          (let st1 = st\<lparr>st_market := ''completed''\<rparr>
           in if throws progressCallback ''Market Research Agent completed'' 60
              then (getMarketFallback documentData, st1\<lparr>st_market := ''failed''\<rparr>)
              else (result, st1))
      | Inl error \<Rightarrow> (getMarketFallback documentData, st\<lparr>st_market := ''failed''\<rparr>))"

definition runRiskAssessment ::
    "string + outcome \<Rightarrow> progressCallback \<Rightarrow> documentData \<Rightarrow> analysisStatus
      \<Rightarrow> outcome \<times> analysisStatus" where
  "runRiskAssessment settled progressCallback documentData st =
     (case settled of
        Inr result \<Rightarrow>
          (let st1 = st\<lparr>st_risk := ''completed''\<rparr>
           in if throws progressCallback ''Risk Assessment Agent completed'' 65
              then (getRiskFallback documentData, st1\<lparr>st_risk := ''failed''\<rparr>)
              else (result, st1))
      | Inl error \<Rightarrow> (getRiskFallback documentData, st\<lparr>st_risk := ''failed''\<rparr>))"

definition runCompetitiveIntelligence ::
    "string + outcome \<Rightarrow> progressCallback \<Rightarrow> documentData \<Rightarrow> analysisStatus
      \<Rightarrow> outcome \<times> analysisStatus" where
  "runCompetitiveIntelligence settled progressCallback documentData st =
     (case settled of
        Inr result \<Rightarrow>
          (let st1 = st\<lparr>st_competitive := ''completed''\<rparr>
           in if throws progressCallback ''Competitive Intelligence Agent completed'' 70
              then (getCompetitiveFallback documentData, st1\<lparr>st_competitive := ''failed''\<rparr>)
              else (result, st1))
      | Inl error \<Rightarrow> (getCompetitiveFallback documentData, st\<lparr>st_competitive := ''failed''\<rparr>))"

definition runPortfolioImpact ::
    "string + outcome \<Rightarrow> progressCallback \<Rightarrow> documentData \<Rightarrow> analysisStatus
      \<Rightarrow> outcome \<times> analysisStatus" where
  "runPortfolioImpact settled progressCallback documentData st =
     (case settled of
        Inr result \<Rightarrow>
          (let st1 = st\<lparr>st_portfolio := ''completed''\<rparr>
           in if throws progressCallback ''Portfolio Impact Agent completed'' 75
              then (getPortfolioFallback documentData, st1\<lparr>st_portfolio := ''failed''\<rparr>)
              else (result, st1))
      | Inl error \<Rightarrow> (getPortfolioFallback documentData, st\<lparr>st_portfolio := ''failed''\<rparr>))"

text \<open>
  One call of \<open>analyzeStartup\<close> is a run. Its local state: the stage it has reached, its
  callback, the document data, the values the four parallel promises have resolved with,
  and the object it has returned. A run whose callback throws outside the \<open>try\<close> blocks
  rejects: it returns nothing. The property \<open>agentStatus\<close> of the returned object is a
  reference to the status object of the orchestrator, so it is not a field of
  \<open>reportBundle\<close>: reading it reads \<open>analysisStatus\<close> of the orchestrator at the time of
  the reading.
\<close>

datatype stage = Idle | ExtractionInFlight | TasksInFlight | Done | Rejected

record reportBundle =
  rawData :: agentResults
  synthesizedReport :: synthesis

record run =
  stage :: stage
  callback :: progressCallback
  documentResult :: "documentData option"
  marketData :: "outcome option"
  riskData :: "outcome option"
  competitiveData :: "outcome option"
  portfolioData :: "outcome option"
  returned :: "reportBundle option"

record orchestrator =
  analysisStatus :: analysisStatus
  runs :: "nat \<Rightarrow> run"

text \<open>
  JavaScript runs one continuation at a time; a run is suspended at each \<open>await\<close>. The
  events are the continuations of the runs of one orchestrator, in the order in which the
  event loop executes them:
  \<^item> \<open>Call i cb\<close>: run \<open>i\<close> is called with the callback \<open>cb\<close>, resets the status object,
    reports its first stage and starts the document agent;
  \<^item> \<open>DocumentResolved i d\<close>: the document agent of run \<open>i\<close> has resolved, the second
    stage is reported and the four agents are started;
  \<^item> \<open>AgentSettled i k a\<close>: the agent \<open>k\<close> of run \<open>i\<close> has settled with \<open>a\<close>;
  \<^item> \<open>Joined i\<close>: the continuation of \<open>await Promise.all(parallelPromises)\<close>, which the
    event loop runs only when each of the four promises has resolved; it reports the third
    stage, synthesizes, reports the end and returns.
  An event that is not enabled in a state leaves the state as it is.
\<close>

datatype event =
    Call nat progressCallback
  | DocumentResolved nat documentData
  | AgentSettled nat agentKey "string + outcome"
  | Joined nat

fun run_of :: "event \<Rightarrow> nat" where
  "run_of (Call i cb) = i"
| "run_of (DocumentResolved i d) = i"
| "run_of (AgentSettled i k a) = i"
| "run_of (Joined i) = i"

definition processing :: analysisStatus where
  "processing =
     \<lparr>st_document = ''processing'', st_market = ''processing'', st_risk = ''processing'',
      st_competitive = ''processing'', st_portfolio = ''processing''\<rparr>"

definition slot :: "agentKey \<Rightarrow> run \<Rightarrow> outcome option" where
  "slot k r =
     (case k of MarketKey \<Rightarrow> marketData r | RiskKey \<Rightarrow> riskData r
      | CompetitiveKey \<Rightarrow> competitiveData r | PortfolioKey \<Rightarrow> portfolioData r)"

definition settle ::
    "agentKey \<Rightarrow> string + outcome \<Rightarrow> documentData \<Rightarrow> analysisStatus \<Rightarrow> run
      \<Rightarrow> run \<times> analysisStatus" where
  "settle k a d st r =
     (case k of
        MarketKey \<Rightarrow>
          (let (res, st') = runMarketAnalysis a (callback r) d st
           in (r\<lparr>marketData := Some res\<rparr>, st'))
      | RiskKey \<Rightarrow>
          (let (res, st') = runRiskAssessment a (callback r) d st
           in (r\<lparr>riskData := Some res\<rparr>, st'))
      | CompetitiveKey \<Rightarrow>
          (let (res, st') = runCompetitiveIntelligence a (callback r) d st
           in (r\<lparr>competitiveData := Some res\<rparr>, st'))
      | PortfolioKey \<Rightarrow>
          (let (res, st') = runPortfolioImpact a (callback r) d st
           in (r\<lparr>portfolioData := Some res\<rparr>, st')))"

definition joined :: "run \<Rightarrow> run" where
  "joined r =
     (case (documentResult r, marketData r, riskData r, competitiveData r, portfolioData r) of
        (Some d, Some m, Some k, Some c, Some p) \<Rightarrow>
          if throws (callback r) ''Synthesizing multi-agent insights...'' 90
          then r\<lparr>stage := Rejected\<rparr>
          else
            (let results = \<lparr>document = d, market = m, risk = k, competitive = c, portfolio = p\<rparr>;
                 synthesized = synthesizeResults results
             in if throws (callback r) ''Analysis complete!'' 100 then r\<lparr>stage := Rejected\<rparr>
                else r\<lparr>stage := Done,
                       returned := Some \<lparr>rawData = results, synthesizedReport = synthesized\<rparr>\<rparr>)
      | _ \<Rightarrow> r)"

fun step :: "event \<Rightarrow> orchestrator \<Rightarrow> orchestrator" where
  "step (Call i cb) s =
     (if stage (runs s i) = Idle
      then s\<lparr>analysisStatus := processing,
             runs := (runs s)(i := (runs s i)
               \<lparr>stage := (if throws cb ''Document Intelligence Agent activated...'' 20
                           then Rejected else ExtractionInFlight),
                callback := cb\<rparr>)\<rparr>
      else s)"
| "step (DocumentResolved i d) s =
     (if stage (runs s i) = ExtractionInFlight
      then s\<lparr>analysisStatus := (analysisStatus s)\<lparr>st_document := ''completed''\<rparr>,
             runs := (runs s)(i := (runs s i)
               \<lparr>stage := (if throws (callback (runs s i)) ''All agents now working in parallel...'' 40
                           then Rejected else TasksInFlight),
                documentResult := Some d\<rparr>)\<rparr>
      else s)"
| "step (AgentSettled i k a) s =
     (case documentResult (runs s i) of
        None \<Rightarrow> s
      | Some d \<Rightarrow>
          if stage (runs s i) = TasksInFlight \<and> slot k (runs s i) = None
          then (let (r', st') = settle k a d (analysisStatus s) (runs s i)
                in s\<lparr>analysisStatus := st', runs := (runs s)(i := r')\<rparr>)
          else s)"
| "step (Joined i) s =
     (if stage (runs s i) = TasksInFlight
      then s\<lparr>runs := (runs s)(i := joined (runs s i))\<rparr>
      else s)"

definition exec :: "event list \<Rightarrow> orchestrator \<Rightarrow> orchestrator" where
  "exec evs s = fold step evs s"

text \<open>The orchestrator after its constructor: no run has been called.\<close>

definition idleRun :: run where
  "idleRun =
     \<lparr>stage = Idle, callback = None, documentResult = None, marketData = None, riskData = None,
      competitiveData = None, portfolioData = None, returned = None\<rparr>"

definition pending :: analysisStatus where
  "pending =
     \<lparr>st_document = ''pending'', st_market = ''pending'', st_risk = ''pending'',
      st_competitive = ''pending'', st_portfolio = ''pending''\<rparr>"

definition constructed :: orchestrator where
  "constructed = \<lparr>analysisStatus = pending, runs = (\<lambda>i. idleRun)\<rparr>"

text \<open>
  What the caller of run \<open>i\<close> reads in \<open>agentStatus\<close> of the object the run has returned,
  when it reads it in state \<open>s\<close>.
\<close>

definition agentStatus :: "orchestrator \<Rightarrow> nat \<Rightarrow> analysisStatus option" where
  "agentStatus s i = (case returned (runs s i) of None \<Rightarrow> None | Some b \<Rightarrow> Some (analysisStatus s))"

section \<open>The specification's wording, and the inputs of the examples\<close>

text \<open>
  The weighted score as the specification words it, in exact arithmetic: the sum over the
  four tasks of the outcome's score times the weight of the task, the risk score inverted
  first. The arguments are the market score, the risk score, the competitive score and the
  portfolio score.
\<close>

definition spec_weightedScore :: "rat \<Rightarrow> rat \<Rightarrow> rat \<Rightarrow> rat \<Rightarrow> rat" where
  "spec_weightedScore m k c p =
     m * (25 / 100) + (10 - k) * (30 / 100) + c * (20 / 100) + p * (25 / 100)"

text \<open>The tier of a score as the specification words it.\<close>

definition spec_tier :: "jsnum \<Rightarrow> string" where
  "spec_tier s =
     (if js_ge s (Fin 8) then ''STRONG BUY''
      else if js_ge s (Fin 6) then ''PROCEED WITH CAUTION''
      else ''PASS'')"

definition emptyRecord :: documentData where
  "emptyRecord =
     \<lparr>companyName = None, industry = None, revenue = None, customers = None, teamSize = None,
      growthRate = None, burnRate = None, runway = None, marketSize = None\<rparr>"

text \<open>
  A record whose growth rate is \<open>Not specified\<close>, the text by which the document agent
  marks a value it has not found.
\<close>

definition notSpecifiedGrowth :: documentData where
  "notSpecifiedGrowth = emptyRecord\<lparr>growthRate := Some (str ''Not specified'')\<rparr>"

definition scored :: "rat \<Rightarrow> outcome" where
  "scored x =
     \<lparr>score = Some (Fin x), riskScore = None, confidence = Some (Fin 80), insights = Some []\<rparr>"

definition riskScored :: "rat \<Rightarrow> outcome" where
  "riskScored x =
     \<lparr>score = None, riskScore = Some (Fin x), confidence = Some (Fin 85), insights = Some []\<rparr>"

text \<open>The doubles that the literals \<open>5.1\<close> and \<open>7.996\<close> denote.\<close>

definition double_5_1 :: rat where
  "double_5_1 = 2871044762448691 / 562949953421312"

definition double_7_996 :: rat where
  "double_7_996 = 4501347827556811 / 562949953421312"

text \<open>Four outcomes with the scores 5.1, 5, 5 and 5: their weighted sum is 5.025.\<close>

definition roundedDown :: agentResults where
  "roundedDown =
     \<lparr>document = emptyRecord, market = scored double_5_1, risk = riskScored 5,
      competitive = scored 5, portfolio = scored 5\<rparr>"

text \<open>Four outcomes with the scores 7.996, 2, 8 and 8: their weighted sum is 7.999.\<close>

definition nearlyEight :: agentResults where
  "nearlyEight =
     \<lparr>document = emptyRecord, market = scored double_7_996, risk = riskScored 2,
      competitive = scored 8, portfolio = scored 8\<rparr>"

text \<open>
  Four outcomes with the scores 4, 1, 5 and 5: their weighted sum is 5.95, and the sum of
  the doubles falls below it.
\<close>

definition borderline :: agentResults where
  "borderline =
     \<lparr>document = emptyRecord, market = scored 4, risk = riskScored 1,
      competitive = scored 5, portfolio = scored 5\<rparr>"

text \<open>
  Four outcomes with eight insights between them, two pairs of equal impact and one
  insight without an impact.
\<close>

definition remark :: "string \<Rightarrow> rat option \<Rightarrow> insight" where
  "remark t i = \<lparr>itype = ''note'', insight_text = t, implication = '''', impact = i\<rparr>"

definition eightInsights :: agentResults where
  "eightInsights =
     \<lparr>document = emptyRecord,
      market = (scored 7)\<lparr>insights := Some [remark ''m1'' (Some 9), remark ''m2'' (Some 6)]\<rparr>,
      risk = (riskScored 4)\<lparr>insights := Some [remark ''r1'' (Some 5)]\<rparr>,
      competitive = (scored 5)
        \<lparr>insights := Some [remark ''c1'' (Some 8), remark ''c2'' (Some 7), remark ''c3'' (Some 6)]\<rparr>,
      portfolio = (scored 6)\<lparr>insights := Some [remark ''p1'' (Some 7), remark ''p2'' None]\<rparr>\<rparr>"

text \<open>
  Two runs on one orchestrator. Run 0 is called, its document and its market agent
  resolve; then run 1 is called; then the three other agents of run 0 resolve and run 0
  returns. \<open>runZeroAlone\<close> is the same run without the call of run 1.
\<close>

definition twoRuns :: "event list" where
  "twoRuns =
     [Call 0 None, DocumentResolved 0 emptyRecord, AgentSettled 0 MarketKey (Inr (scored 7)),
      Call 1 None,
      AgentSettled 0 PortfolioKey (Inr (scored 6)), AgentSettled 0 RiskKey (Inr (riskScored 4)),
      AgentSettled 0 CompetitiveKey (Inr (scored 5)), Joined 0]"

definition runZeroAlone :: "event list" where
  "runZeroAlone = filter (\<lambda>e. run_of e = 0) twoRuns"

text \<open>
  A run whose market agent rejects; its agents settle in the order portfolio, risk, market,
  competitive, and the join is tried after none, after two and after four of them.
\<close>

definition marketRejected :: "event list" where
  "marketRejected =
     [Call 0 None, DocumentResolved 0 emptyRecord, Joined 0,
      AgentSettled 0 PortfolioKey (Inr (scored 6)), AgentSettled 0 RiskKey (Inr (riskScored 4)),
      Joined 0,
      AgentSettled 0 MarketKey (Inl ''service unavailable''),
      AgentSettled 0 CompetitiveKey (Inr (scored 5)), Joined 0]"

text \<open>
  A callback that throws when it is told that the market agent has completed, and a run
  with this callback in which every agent resolves; the market agent resolves with a score
  of 7, a confidence of 80 and one insight.
\<close>

definition throwsAtMarket :: progressCallback where
  "throwsAtMarket = Some (\<lambda>message percent. percent = 60)"

definition marketResult :: outcome where
  "marketResult = (scored 7)\<lparr>insights := Some [remark ''m1'' (Some 9)]\<rparr>"

definition callbackThrows :: "event list" where
  "callbackThrows =
     [Call 0 throwsAtMarket, DocumentResolved 0 emptyRecord,
      AgentSettled 0 MarketKey (Inr marketResult), AgentSettled 0 RiskKey (Inr (riskScored 4)),
      AgentSettled 0 CompetitiveKey (Inr (scored 5)), AgentSettled 0 PortfolioKey (Inr (scored 6)),
      Joined 0]"

section \<open>Predicates of the proofs about runs\<close>

text \<open>
  The invariant of a run: it has returned exactly when it is done, and what it has returned
  was synthesized from its document data and its four resolved outcomes.
\<close>

definition settled_all :: "run \<Rightarrow> reportBundle \<Rightarrow> bool" where
  "settled_all r b =
     (\<exists>d m k c p.
        documentResult r = Some d \<and> marketData r = Some m \<and> riskData r = Some k
        \<and> competitiveData r = Some c \<and> portfolioData r = Some p
        \<and> rawData b = \<lparr>document = d, market = m, risk = k, competitive = c, portfolio = p\<rparr>
        \<and> synthesizedReport b = synthesizeResults (rawData b))"

definition run_inv :: "run \<Rightarrow> bool" where
  "run_inv r = (case returned r of None \<Rightarrow> stage r \<noteq> Done | Some b \<Rightarrow> stage r = Done \<and> settled_all r b)"

text \<open>
  What a settled agent promise delivers to the join in a run with the callback \<open>cb\<close>: the
  result, or the fallback of the orchestrator when the promise has rejected or the callback
  throws at the message of the agent.
\<close>

definition fallbackOf :: "agentKey \<Rightarrow> documentData \<Rightarrow> outcome" where
  "fallbackOf k d =
     (case k of MarketKey \<Rightarrow> getMarketFallback d | RiskKey \<Rightarrow> getRiskFallback d
      | CompetitiveKey \<Rightarrow> getCompetitiveFallback d | PortfolioKey \<Rightarrow> getPortfolioFallback d)"

definition throwsAt :: "progressCallback \<Rightarrow> agentKey \<Rightarrow> bool" where
  "throwsAt cb k =
     (case k of
        MarketKey \<Rightarrow> throws cb ''Market Research Agent completed'' 60
      | RiskKey \<Rightarrow> throws cb ''Risk Assessment Agent completed'' 65
      | CompetitiveKey \<Rightarrow> throws cb ''Competitive Intelligence Agent completed'' 70
      | PortfolioKey \<Rightarrow> throws cb ''Portfolio Impact Agent completed'' 75)"

definition delivered :: "progressCallback \<Rightarrow> agentKey \<Rightarrow> string + outcome \<Rightarrow> documentData \<Rightarrow> outcome" where
  "delivered cb k a d =
     (case a of
        Inr result \<Rightarrow> if throwsAt cb k then fallbackOf k d else result
      | Inl error \<Rightarrow> fallbackOf k d)"

text \<open>
  A run with the callback \<open>cb\<close> whose agents in \<open>K\<close>, and no others, have settled with the
  answers \<open>a\<close>.
\<close>

definition in_flight ::
    "progressCallback \<Rightarrow> documentData \<Rightarrow> (agentKey \<Rightarrow> string + outcome) \<Rightarrow> agentKey set \<Rightarrow> run
      \<Rightarrow> bool" where
  "in_flight cb d a K r =
     (stage r = TasksInFlight \<and> callback r = cb \<and> documentResult r = Some d \<and> returned r = None
      \<and> (\<forall>k. slot k r = (if k \<in> K then Some (delivered cb k (a k) d) else None)))"

section \<open>Properties\<close>

subsection \<open>Rounding to a double\<close>

lemma round_half_even_bound: "\<bar>of_int (round_half_even r) - r\<bar> \<le> 1 / 2"
  unfolding round_half_even_def Let_def by (auto simp: abs_if) linarith+

lemma round_half_even_eqI:
  assumes "\<bar>of_int n - r\<bar> < 1 / 2"
  shows "round_half_even r = n"
proof -
  have "\<bar>of_int (round_half_even r) - r\<bar> \<le> 1 / 2" by (rule round_half_even_bound)
  with assms have "\<bar>(of_int (round_half_even r) :: rat) - of_int n\<bar> < 1" by linarith
  then have "\<bar>round_half_even r - n\<bar> < 1"
    by (metis of_int_diff of_int_abs of_int_less_1_iff)
  then show ?thesis by linarith
qed

lemma round_half_even_int [simp]: "round_half_even (of_int n) = n"
  by (rule round_half_even_eqI) simp

lemma halvings_le: "halvings n x \<le> n"
  by (induction n arbitrary: x) auto

lemma doublings_le: "doublings n x \<le> n"
  by (induction n arbitrary: x) auto

lemma halvings_spec:
  "1 \<le> x \<Longrightarrow> x < 2 ^ Suc n \<Longrightarrow> 2 ^ halvings n x \<le> x \<and> x < 2 * 2 ^ halvings n x"
proof (induction n arbitrary: x)
  case 0
  then show ?case by simp
next
  case (Suc n)
  show ?case
  proof (cases "2 \<le> x")
    case True
    then have "1 \<le> x / 2" by simp
    moreover from Suc.prems have "x / 2 < 2 ^ Suc n" by simp
    ultimately have "2 ^ halvings n (x / 2) \<le> x / 2 \<and> x / 2 < 2 * 2 ^ halvings n (x / 2)"
      by (rule Suc.IH)
    with True show ?thesis by simp
  next
    case False
    with Suc.prems show ?thesis by simp
  qed
qed

lemma doublings_spec:
  "0 < x \<Longrightarrow> x < 1 \<Longrightarrow> 1 \<le> x * 2 ^ n \<Longrightarrow>
   1 \<le> x * 2 ^ doublings n x \<and> x * 2 ^ doublings n x < 2"
proof (induction n arbitrary: x)
  case 0
  then show ?case by simp
next
  case (Suc n)
  show ?case
  proof (cases "x * 2 < 1")
    case True
    from Suc.prems have "0 < x * 2" by simp
    moreover from Suc.prems have "1 \<le> x * 2 * 2 ^ n" by (simp add: mult.assoc)
    ultimately have "1 \<le> x * 2 * 2 ^ doublings n (x * 2) \<and> x * 2 * 2 ^ doublings n (x * 2) < 2"
      using True by (intro Suc.IH)
    with Suc.prems show ?thesis by (simp add: mult.assoc)
  next
    case False
    then have "doublings n (x * 2) = 0" by (cases n) simp_all
    with Suc.prems False show ?thesis by simp
  qed
qed

lemma doublings_tiny: "0 \<le> x \<Longrightarrow> x * 2 ^ n < 1 \<Longrightarrow> doublings n x = n"
proof (induction n arbitrary: x)
  case 0
  then show ?case by simp
next
  case (Suc n)
  from Suc.prems have "x * 2 * 2 ^ n < 1" by (simp add: mult.assoc)
  moreover from Suc.prems have "0 \<le> x * 2" by simp
  ultimately have "doublings n (x * 2) = n" by (intro Suc.IH)
  moreover have "x < 1"
  proof -
    have "(1::rat) \<le> 2 ^ Suc n" by (rule one_le_power) simp
    then have "x * 1 \<le> x * 2 ^ Suc n" using Suc.prems(1) by (intro mult_left_mono)
    with Suc.prems(2) show ?thesis by simp
  qed
  ultimately show ?case by simp
qed

lemma binade_range: "- 1022 \<le> binade x \<and> binade x \<le> 1024"
  using halvings_le [of 1024 "\<bar>x\<bar>"] doublings_le [of 1022 "\<bar>x\<bar>"]
  by (auto simp: binade_def)

lemma powi_neg_nat: "(2::rat) powi (- int d) = 1 / 2 ^ d"
  by (simp add: power_int_minus field_simps)

lemma binade_bounds:
  assumes "2 powi (- 1022) \<le> \<bar>x\<bar>" and "\<bar>x\<bar> < 2 ^ 1025"
  shows "2 powi binade x \<le> \<bar>x\<bar> \<and> \<bar>x\<bar> < 2 powi (binade x + 1)"
proof (cases "1 \<le> \<bar>x\<bar>")
  case True
  from halvings_spec [OF True, of 1024] assms(2)
  have "2 ^ halvings 1024 \<bar>x\<bar> \<le> \<bar>x\<bar> \<and> \<bar>x\<bar> < 2 * 2 ^ halvings 1024 \<bar>x\<bar>"
    by simp
  with True show ?thesis
    by (simp add: binade_def power_int_add)
next
  case False
  have pos: "0 < \<bar>x\<bar>"
  proof -
    have "(0::rat) < 2 powi (- 1022)" by simp
    with assms(1) show ?thesis by linarith
  qed
  have "1 \<le> \<bar>x\<bar> * 2 ^ 1022"
    using assms(1) by (simp add: power_int_minus field_simps)
  with pos False have d: "1 \<le> \<bar>x\<bar> * 2 ^ doublings 1022 \<bar>x\<bar>"
      "\<bar>x\<bar> * 2 ^ doublings 1022 \<bar>x\<bar> < 2"
    using doublings_spec [of "\<bar>x\<bar>" 1022] by simp_all
  have "(2::rat) powi (1 + - int (doublings 1022 \<bar>x\<bar>)) =
      2 powi 1 * 2 powi (- int (doublings 1022 \<bar>x\<bar>))"
    by (rule power_int_add) simp
  then have e: "(2::rat) powi (1 - int (doublings 1022 \<bar>x\<bar>)) = 2 / 2 ^ doublings 1022 \<bar>x\<bar>"
    by (simp add: powi_neg_nat)
  from d False show ?thesis
    by (simp add: binade_def e powi_neg_nat field_simps)
qed

lemma binade_less:
  assumes "\<bar>x\<bar> < 2 powi k" and "- 1021 \<le> k" and "k \<le> 1025"
  shows "binade x < k"
proof (cases "2 powi (- 1022) \<le> \<bar>x\<bar>")
  case True
  have "(2::rat) powi k \<le> 2 powi 1025"
    using assms(3) by (intro power_int_increasing) simp_all
  with assms(1) have "\<bar>x\<bar> < 2 ^ 1025" by simp
  with True have "2 powi binade x \<le> \<bar>x\<bar>" using binade_bounds by blast
  with assms(1) have "(2::rat) powi binade x < 2 powi k" by linarith
  then show ?thesis
    by (metis linorder_not_less one_le_numeral power_int_increasing)
next
  case False
  then have "\<bar>x\<bar> * 2 ^ 1022 < 1"
    by (simp add: power_int_minus field_simps)
  then have "doublings 1022 \<bar>x\<bar> = 1022"
    by (intro doublings_tiny) simp_all
  moreover from False have "\<not> 1 \<le> \<bar>x\<bar>"
  proof -
    have "(2::rat) powi (- 1022) \<le> 1" by (simp add: power_int_minus field_simps)
    with False show ?thesis by linarith
  qed
  ultimately have "binade x = - 1022" by (simp add: binade_def)
  with assms(2) show ?thesis by simp
qed


lemma binade_unique:
  assumes "2 powi e \<le> \<bar>x\<bar>" and "\<bar>x\<bar> < 2 powi (e + 1)" and "- 1022 \<le> e" and "e \<le> 1023"
  shows "binade x = e"
proof -
  have "(2::rat) powi (- 1022) \<le> 2 powi e"
    using assms(3) by (intro power_int_increasing) simp_all
  with assms(1) have lo: "2 powi (- 1022) \<le> \<bar>x\<bar>" by linarith
  have "(2::rat) powi (e + 1) \<le> 2 powi 1025"
    using assms(4) by (intro power_int_increasing) simp_all
  with assms(2) have hi: "\<bar>x\<bar> < 2 ^ 1025" by simp
  from binade_bounds [OF lo hi]
  have b: "2 powi binade x \<le> \<bar>x\<bar>" "\<bar>x\<bar> < 2 powi (binade x + 1)" by simp_all
  from b(1) assms(2) have "(2::rat) powi binade x < 2 powi (e + 1)" by linarith
  then have "binade x < e + 1"
    by (metis linorder_not_less one_le_numeral power_int_increasing)
  moreover from assms(1) b(2) have "(2::rat) powi e < 2 powi (binade x + 1)" by linarith
  then have "e < binade x + 1"
    by (metis linorder_not_less one_le_numeral power_int_increasing)
  ultimately show ?thesis by linarith
qed

lemma fl_eqI:
  assumes "2 powi e \<le> \<bar>x\<bar>" and "\<bar>x\<bar> < 2 powi (e + 1)" and "- 1022 \<le> e" and "e \<le> 1022"
    and "\<bar>of_int n - x / 2 powi (e - 52)\<bar> < 1 / 2"
  shows "fl x = Fin (of_int n * 2 powi (e - 52))"
proof -
  let ?q = "(2::rat) powi (e - 52)"
  have q: "0 < ?q" by simp
  have e: "binade x = e" using assms(1-4) by (intro binade_unique) simp_all
  have n: "round_half_even (x / ?q) = n" using assms(5) by (rule round_half_even_eqI)
  have "\<bar>of_int n * ?q - x\<bar> = \<bar>of_int n - x / ?q\<bar> * ?q"
    using q by (simp add: abs_mult [symmetric] field_simps)
  also have "\<dots> < 1 / 2 * ?q" using assms(5) q by (intro mult_strict_right_mono)
  finally have d: "\<bar>of_int n * ?q - x\<bar> < ?q / 2" by simp
  have "?q \<le> 2 powi (e + 1)" by (intro power_int_increasing) simp_all
  with d assms(2) have "\<bar>of_int n * ?q\<bar> < 2 * 2 powi (e + 1)" by linarith
  also have "\<dots> = 2 powi (e + 2)"
    by (simp add: power_int_add)
  also have "\<dots> \<le> 2 powi 1024" using assms(4) by (intro power_int_increasing) simp_all
  finally have "\<not> 2 ^ 1024 \<le> \<bar>of_int n * ?q\<bar>" by simp
  then show ?thesis by (simp add: fl_def e n Let_def)
qed

lemma fl_bound:
  assumes "\<bar>x\<bar> < 2 powi k" and "- 1021 \<le> k" and "k \<le> 1023"
  shows "\<exists>y. fl x = Fin y \<and> \<bar>y - x\<bar> \<le> 2 powi (k - 54)"
proof -
  let ?q = "(2::rat) powi (binade x - 52)"
  let ?y = "of_int (round_half_even (x / ?q)) * ?q"
  have q: "0 < ?q" by simp
  have "binade x < k" using assms by (intro binade_less) simp_all
  then have qk: "?q \<le> 2 powi (k - 53)" by (intro power_int_increasing) simp_all
  have "\<bar>?y - x\<bar> = \<bar>of_int (round_half_even (x / ?q)) - x / ?q\<bar> * ?q"
    using q by (simp add: abs_mult [symmetric] field_simps)
  also have "\<dots> \<le> 1 / 2 * ?q"
    using q by (intro mult_right_mono round_half_even_bound) simp
  also have "\<dots> \<le> 1 / 2 * 2 powi (k - 53)" using qk by simp
  also have "\<dots> = 2 powi (k - 54)"
  proof -
    have "(2::rat) powi (k - 54 + 1) = 2 powi (k - 54) * 2 powi 1" by (rule power_int_add) simp
    then show ?thesis by simp
  qed
  finally have d: "\<bar>?y - x\<bar> \<le> 2 powi (k - 54)" .
  have "(2::rat) powi (k - 54) \<le> 2 powi k" by (intro power_int_increasing) simp_all
  with d assms(1) have "\<bar>?y\<bar> < 2 * 2 powi k" by linarith
  also have "\<dots> = 2 powi (k + 1)" by (simp add: power_int_add)
  also have "\<dots> \<le> 2 powi 1024" using assms(3) by (intro power_int_increasing) simp_all
  finally have "\<not> 2 ^ 1024 \<le> \<bar>?y\<bar>" by simp
  with d show ?thesis by (simp add: fl_def Let_def)
qed

lemma round_half_even_0 [simp]: "round_half_even 0 = 0"
  using round_half_even_int [of 0] by simp

lemma fl_0 [simp]: "fl 0 = Fin 0"
  by (simp add: fl_def)

lemma fl_int:
  assumes "\<bar>n\<bar> < 2 ^ 53"
  shows "fl (of_int n) = Fin (of_int n)"
proof (cases "n = 0")
  case True
  then show ?thesis by simp
next
  case False
  let ?x = "of_int n :: rat"
  from False have "1 \<le> \<bar>n\<bar>" by simp
  then have "(of_int 1 :: rat) \<le> of_int \<bar>n\<bar>" by (simp only: of_int_le_iff)
  then have one: "1 \<le> \<bar>?x\<bar>" by simp
  then have nonneg: "0 \<le> binade ?x" by (simp add: binade_def)
  from assms have "(of_int \<bar>n\<bar> :: rat) < of_int (2 ^ 53)" by (simp only: of_int_less_iff)
  then have lt53: "\<bar>?x\<bar> < 2 ^ 53" by simp
  then have "\<bar>?x\<bar> < 2 powi 53" by simp
  then have "binade ?x < 53" by (intro binade_less) simp_all
  define d where "d = nat (52 - binade ?x)"
  with \<open>binade ?x < 53\<close> have d: "binade ?x - 52 = - int d" by simp
  have q: "(2::rat) powi (binade ?x - 52) = 1 / 2 ^ d"
    unfolding d by (rule powi_neg_nat)
  have "?x / (1 / 2 ^ d) = of_int (n * 2 ^ d)" by simp
  then have "round_half_even (?x / (1 / 2 ^ d)) = n * 2 ^ d"
    by (simp only: round_half_even_int)
  then have y: "of_int (round_half_even (?x / 2 powi (binade ?x - 52))) * 2 powi (binade ?x - 52) = ?x"
    unfolding q by simp
  have "\<not> 2 ^ 1024 \<le> \<bar>?x\<bar>"
  proof -
    have "(2::rat) ^ 53 \<le> 2 ^ 1024" by (intro power_increasing) simp_all
    with lt53 show ?thesis by linarith
  qed
  then show ?thesis
    unfolding fl_def Let_def y by simp
qed

lemma round_half_even_tie_down:
  assumes "r = of_int n + 1 / 2" and "even n"
  shows "round_half_even r = n"
proof -
  have "\<lfloor>r\<rfloor> = n" using assms(1) by (intro floor_unique) simp_all
  with assms show ?thesis by (simp add: round_half_even_def)
qed

lemma round_half_even_tie_up:
  assumes "r = of_int n - 1 / 2" and "even n"
  shows "round_half_even r = n"
proof -
  have "\<lfloor>r\<rfloor> = n - 1" using assms(1) by (intro floor_unique) simp_all
  with assms show ?thesis by (simp add: round_half_even_def)
qed

lemma fl_roundI:
  assumes "2 powi e \<le> \<bar>x\<bar>" and "\<bar>x\<bar> < 2 powi (e + 1)" and "- 1022 \<le> e" and "e \<le> 1022"
    and "round_half_even (x / 2 powi (e - 52)) = n"
  shows "fl x = Fin (of_int n * 2 powi (e - 52))"
proof -
  let ?q = "(2::rat) powi (e - 52)"
  have q: "0 < ?q" by simp
  have e: "binade x = e" using assms(1-4) by (intro binade_unique) simp_all
  have "\<bar>of_int n - x / ?q\<bar> \<le> 1 / 2"
    using round_half_even_bound [of "x / ?q"] assms(5) by simp
  then have "\<bar>of_int n - x / ?q\<bar> * ?q \<le> 1 / 2 * ?q"
    using q by (intro mult_right_mono) simp_all
  moreover have "\<bar>of_int n * ?q - x\<bar> = \<bar>of_int n - x / ?q\<bar> * ?q"
    using q by (simp add: abs_mult [symmetric] field_simps)
  ultimately have d: "\<bar>of_int n * ?q - x\<bar> \<le> ?q / 2" by simp
  have "?q \<le> 2 powi (e + 1)" by (intro power_int_increasing) simp_all
  with d assms(2) q have "\<bar>of_int n * ?q\<bar> < 2 * 2 powi (e + 1)" by linarith
  also have "\<dots> = 2 powi (e + 2)"
    by (simp add: power_int_add)
  also have "\<dots> \<le> 2 powi 1024" using assms(4) by (intro power_int_increasing) simp_all
  finally have "\<not> 2 ^ 1024 \<le> \<bar>of_int n * ?q\<bar>" by simp
  then show ?thesis using assms(5) by (simp add: fl_def e Let_def)
qed

lemma fl_tie_downI:
  assumes "2 powi e \<le> \<bar>x\<bar>" and "\<bar>x\<bar> < 2 powi (e + 1)" and "- 1022 \<le> e" and "e \<le> 1022"
    and "x / 2 powi (e - 52) = of_int n + 1 / 2" and "even n"
  shows "fl x = Fin (of_int n * 2 powi (e - 52))"
  using assms(1-4) round_half_even_tie_down [OF assms(5,6)] by (rule fl_roundI)

lemma fl_tie_upI:
  assumes "2 powi e \<le> \<bar>x\<bar>" and "\<bar>x\<bar> < 2 powi (e + 1)" and "- 1022 \<le> e" and "e \<le> 1022"
    and "x / 2 powi (e - 52) = of_int n - 1 / 2" and "even n"
  shows "fl x = Fin (of_int n * 2 powi (e - 52))"
  using assms(1-4) round_half_even_tie_up [OF assms(5,6)] by (rule fl_roundI)

lemma fl_numeral [simp]: "(numeral n :: int) < 2 ^ 53 \<Longrightarrow> fl (numeral n) = Fin (numeral n)"
  using fl_int [of "numeral n"] by simp

lemma fl_1 [simp]: "fl 1 = Fin 1"
  using fl_int [of 1] by simp

lemma fl_small:
  assumes "- 16 < x" and "x < 16"
  shows "\<exists>y. fl x = Fin y \<and> x - 1 / 1125899906842624 \<le> y \<and> y \<le> x + 1 / 1125899906842624"
proof -
  from assms have "\<bar>x\<bar> < 2 powi 4" by simp
  then obtain y where y: "fl x = Fin y" and "\<bar>y - x\<bar> \<le> 2 powi (4 - 54)"
    using fl_bound [of x 4] by auto
  then have "\<bar>y - x\<bar> \<le> 1 / 1125899906842624" by (simp add: power_int_minus)
  then have "x - 1 / 1125899906842624 \<le> y \<and> y \<le> x + 1 / 1125899906842624" by linarith
  with y show ?thesis by blast
qed

lemma fl_medium:
  assumes "- 128 < x" and "x < 128"
  shows "\<exists>y. fl x = Fin y \<and> x - 1 / 140737488355328 \<le> y \<and> y \<le> x + 1 / 140737488355328"
proof -
  from assms have "\<bar>x\<bar> < 2 powi 7" by simp
  then obtain y where y: "fl x = Fin y" and "\<bar>y - x\<bar> \<le> 2 powi (7 - 54)"
    using fl_bound [of x 7] by auto
  then have "\<bar>y - x\<bar> \<le> 1 / 140737488355328" by (simp add: power_int_minus)
  then have "x - 1 / 140737488355328 \<le> y \<and> y \<le> x + 1 / 140737488355328" by linarith
  with y show ?thesis by blast
qed

subsection \<open>Arithmetic of the number model\<close>

lemma js_arith_Fin:
  "js_add (Fin a) (Fin b) = fl (a + b)"
  "js_sub (Fin a) (Fin b) = fl (a - b)"
  "js_mul (Fin a) (Fin b) = fl (a * b)"
  "b \<noteq> 0 \<Longrightarrow> js_div (Fin a) (Fin b) = fl (a / b)"
  by (simp_all add: js_add_def js_sub_def js_mul_def js_neg_def js_div_def)

lemma js_exact_Fin [simp]:
  "js_neg (Fin a) = Fin (- a)"
  "Math_round (Fin a) = Fin (of_int \<lfloor>a + 1 / 2\<rfloor>)"
  by (simp_all add: js_neg_def Math_round_def)

lemma js_cmp_Fin [simp]:
  "js_lt (Fin a) (Fin b) = (a < b)"
  "js_gt (Fin a) (Fin b) = (b < a)"
  "js_ge (Fin a) (Fin b) = (b \<le> a)"
  "js_le (Fin a) (Fin b) = (a \<le> b)"
  by (auto simp: js_lt_def js_gt_def js_ge_def js_le_def)

lemma js_NaN_arith [simp]:
  "js_add NaN y = NaN" "js_add x NaN = NaN"
  "js_sub NaN y = NaN" "js_sub x NaN = NaN"
  "js_mul NaN y = NaN" "js_mul x NaN = NaN"
  "js_div NaN y = NaN" "js_div x NaN = NaN"
  "Math_round NaN = NaN"
  "Math_min NaN y = NaN" "Math_min x NaN = NaN"
  "Math_max NaN y = NaN" "Math_max x NaN = NaN"
  by (simp_all add: js_add_def js_sub_def js_mul_def js_div_def js_neg_def Math_round_def
      Math_min_def Math_max_def split: jsnum.splits)

lemma js_NaN_cmp [simp]:
  "js_lt NaN y = False" "js_lt x NaN = False"
  "js_gt NaN y = False" "js_gt x NaN = False"
  "js_ge NaN y = False" "js_ge x NaN = False"
  "js_le NaN y = False" "js_le x NaN = False"
  by (simp_all add: js_lt_def js_gt_def js_ge_def js_le_def split: jsnum.splits)

lemma falsy_simps [simp]:
  "falsy NaN" "falsy (Fin a) = (a = 0)" "\<not> falsy PosInf" "\<not> falsy NegInf"
  by (simp_all add: falsy_def)

lemma js_or_simps [simp]:
  "js_or None d = d" "js_or (Some NaN) d = d"
  "js_or (Some (Fin a)) d = (if a = 0 then d else Fin a)"
  by (simp_all add: js_or_def)

lemma js_add_small:
  assumes "- 16 < a + b" and "a + b < 16"
  shows "\<exists>y. js_add (Fin a) (Fin b) = Fin y
    \<and> a + b - 1 / 1125899906842624 \<le> y \<and> y \<le> a + b + 1 / 1125899906842624"
  using fl_small [OF assms] by (simp add: js_arith_Fin)

lemma js_sub_small:
  assumes "- 16 < a - b" and "a - b < 16"
  shows "\<exists>y. js_sub (Fin a) (Fin b) = Fin y
    \<and> a - b - 1 / 1125899906842624 \<le> y \<and> y \<le> a - b + 1 / 1125899906842624"
  using fl_small [OF assms] by (simp add: js_arith_Fin)

lemma js_mul_small:
  assumes "- 16 < a * b" and "a * b < 16"
  shows "\<exists>y. js_mul (Fin a) (Fin b) = Fin y
    \<and> a * b - 1 / 1125899906842624 \<le> y \<and> y \<le> a * b + 1 / 1125899906842624"
  using fl_small [OF assms] by (simp add: js_arith_Fin)

lemma js_mul_medium:
  assumes "- 128 < a * b" and "a * b < 128"
  shows "\<exists>y. js_mul (Fin a) (Fin b) = Fin y
    \<and> a * b - 1 / 140737488355328 \<le> y \<and> y \<le> a * b + 1 / 140737488355328"
  using fl_medium [OF assms] by (simp add: js_arith_Fin)

lemmas string_defs = str_def keep_digits_dots_def keep_digits_def is_digit_def toLowerCase_def
  lower_unit_def drop_percent_def digits_value_def is_space_def parse_exponent_def scale10_def
  parseFloat_def parseInt_def rupee_def

lemmas example_defs = emptyRecord_def notSpecifiedGrowth_def scored_def riskScored_def
  roundedDown_def nearlyEight_def borderline_def double_5_1_def double_7_996_def

subsection \<open>The doubles of the examples\<close>

lemma fl_3_10: "fl (3 / 10) = Fin (5404319552844595 / 18014398509481984)"
  using fl_eqI [of "- 2" "(3 / 10)" 5404319552844595] by (simp add: js_arith_Fin power_int_minus)

lemma fl_1_5: "fl (1 / 5) = Fin (3602879701896397 / 18014398509481984)"
  using fl_eqI [of "- 3" "(1 / 5)" 7205759403792794] by (simp add: js_arith_Fin power_int_minus)

lemma fl_51_10: "fl (51 / 10) = Fin (2871044762448691 / 562949953421312)"
  using fl_eqI [of 2 "(51 / 10)" 5742089524897382] by (simp add: js_arith_Fin power_int_minus)

lemma fl_7996_1000: "fl (1999 / 250) = Fin (4501347827556811 / 562949953421312)"
  using fl_eqI [of 2 "(1999 / 250)" 9002695655113622] by (simp add: js_arith_Fin power_int_minus)

lemma fl_59_10: "fl (59 / 10) = Fin (3321404725185741 / 562949953421312)"
  using fl_eqI [of 2 "(59 / 10)" 6642809450371482] by (simp add: js_arith_Fin power_int_minus)

lemma ratio_3_2: "js_div (Fin 2100000) (Fin 1400000) = Fin (3 / 2)"
  using fl_eqI [of 0 "(3 / 2)" 6755399441055744] by (simp add: js_arith_Fin power_int_minus)

lemma total_1: "js_add (Fin 0) (Fin (1 / 4)) = Fin (1 / 4)"
  using fl_eqI [of "- 2" "(1 / 4)" 4503599627370496] by (simp add: js_arith_Fin power_int_minus)

lemma total_2: "js_add (Fin (1 / 4)) (Fin (5404319552844595 / 18014398509481984)) = Fin (2476979795053773 / 4503599627370496)"
  using fl_tie_upI [of "- 1" "(9907919180215091 / 18014398509481984)" 4953959590107546] by (simp add: js_arith_Fin power_int_minus)

lemma total_3: "js_add (Fin (2476979795053773 / 4503599627370496)) (Fin (3602879701896397 / 18014398509481984)) = Fin (3 / 4)"
  using fl_tie_downI [of "- 1" "(13510798882111489 / 18014398509481984)" 6755399441055744] by (simp add: js_arith_Fin power_int_minus)

lemma total_4: "js_add (Fin (3 / 4)) (Fin (1 / 4)) = Fin 1"
  using fl_eqI [of 0 "1" 4503599627370496] by (simp add: js_arith_Fin power_int_minus)

lemma borderline_a1: "js_mul (Fin 4) (Fin (1 / 4)) = Fin 1"
  using fl_eqI [of 0 "1" 4503599627370496] by (simp add: js_arith_Fin power_int_minus)

lemma borderline_t1: "js_add (Fin 0) (Fin 1) = Fin 1"
  using fl_eqI [of 0 "1" 4503599627370496] by (simp add: js_arith_Fin power_int_minus)

lemma borderline_s1: "js_sub (Fin 10) (Fin 1) = Fin 9"
  using fl_eqI [of 3 "9" 5066549580791808] by (simp add: js_arith_Fin power_int_minus)

lemma borderline_a2: "js_mul (Fin 9) (Fin (5404319552844595 / 18014398509481984)) = Fin (6079859496950169 / 2251799813685248)"
  using fl_eqI [of 1 "(48638875975601355 / 18014398509481984)" 6079859496950169] by (simp add: js_arith_Fin power_int_minus)

lemma borderline_t2: "js_add (Fin 1) (Fin (6079859496950169 / 2251799813685248)) = Fin (8331659310635417 / 2251799813685248)"
  using fl_eqI [of 1 "(8331659310635417 / 2251799813685248)" 8331659310635417] by (simp add: js_arith_Fin power_int_minus)

lemma borderline_a3: "js_mul (Fin 5) (Fin (3602879701896397 / 18014398509481984)) = Fin 1"
  using fl_eqI [of 0 "(18014398509481985 / 18014398509481984)" 4503599627370496] by (simp add: js_arith_Fin power_int_minus)

lemma borderline_t3: "js_add (Fin (8331659310635417 / 2251799813685248)) (Fin 1) = Fin (1322932390540083 / 281474976710656)"
  using fl_tie_downI [of 2 "(10583459124320665 / 2251799813685248)" 5291729562160332] by (simp add: js_arith_Fin power_int_minus)

lemma borderline_a4: "js_mul (Fin 5) (Fin (1 / 4)) = Fin (5 / 4)"
  using fl_eqI [of 0 "(5 / 4)" 5629499534213120] by (simp add: js_arith_Fin power_int_minus)

lemma borderline_t4: "js_add (Fin (1322932390540083 / 281474976710656)) (Fin (5 / 4)) = Fin (1674776111428403 / 281474976710656)"
  using fl_eqI [of 2 "(1674776111428403 / 281474976710656)" 6699104445713612] by (simp add: js_arith_Fin power_int_minus)

lemma borderline_z: "js_mul (Fin (1674776111428403 / 281474976710656)) (Fin 10) = Fin (8373880557142015 / 140737488355328)"
  using fl_eqI [of 5 "(8373880557142015 / 140737488355328)" 8373880557142015] by (simp add: js_arith_Fin power_int_minus)

subsection \<open>The investment score\<close>

lemma tolerances:
  "(10::rat) ^ 12 = 1000000000000" "(10::rat) ^ 13 = 10000000000000"
  "(10::rat) ^ 14 = 100000000000000" "(10::rat) ^ 15 = 1000000000000000"
  by simp_all

lemma weightedScore_unfold:
  assumes "js_or (score (market r)) (Fin 7) = Fin m"
    and "js_or (riskScore (risk r)) (Fin 5) = Fin k"
    and "js_or (score (competitive r)) (Fin 6) = Fin c"
    and "js_or (score (portfolio r)) (Fin 7) = Fin p"
  shows "weightedScore r =
    js_add
      (js_add
         (js_add (js_add (Fin 0) (js_mul (Fin m) (Fin (1 / 4))))
            (js_mul (js_sub (Fin 10) (Fin k)) (fl (3 / 10))))
         (js_mul (Fin c) (fl (1 / 5))))
      (js_mul (Fin p) (Fin (1 / 4)))"
  using assms by (simp add: weightedScore_def weights_def)

text \<open>
  The sum of the doubles stays within \<open>1 / 10 ^ 14\<close> of the exact weighted sum: each of
  the nine operations rounds a number below 16, so by \<open>1 / 2 ^ 50\<close> at most, and the
  doubles of the weights 0.3 and 0.2 are the ones of \<open>fl_3_10\<close> and \<open>fl_1_5\<close>.
\<close>

lemma weightedScore_bound:
  assumes eqs: "js_or (score (market r)) (Fin 7) = Fin m"
      "js_or (riskScore (risk r)) (Fin 5) = Fin k"
      "js_or (score (competitive r)) (Fin 6) = Fin c"
      "js_or (score (portfolio r)) (Fin 7) = Fin p"
    and b: "0 \<le> m" "m \<le> 10" "0 \<le> k" "k \<le> 10" "0 \<le> c" "c \<le> 10" "0 \<le> p" "p \<le> 10"
  shows "\<exists>w. weightedScore r = Fin w
    \<and> spec_weightedScore m k c p - 1 / 10 ^ 14 \<le> w
    \<and> w \<le> spec_weightedScore m k c p + 1 / 10 ^ 14"
proof -
  have "- 16 < m * (1 / 4)" "m * (1 / 4) < 16" using b by linarith+
  from js_mul_small [OF this] obtain a1 where a1: "js_mul (Fin m) (Fin (1 / 4)) = Fin a1"
    "m * (1 / 4) - 1 / 1125899906842624 \<le> a1" "a1 \<le> m * (1 / 4) + 1 / 1125899906842624"
    by blast
  have "- 16 < 0 + a1" "0 + a1 < 16" using b a1(2,3) by linarith+
  from js_add_small [OF this] obtain t1 where t1: "js_add (Fin 0) (Fin a1) = Fin t1"
    "0 + a1 - 1 / 1125899906842624 \<le> t1" "t1 \<le> 0 + a1 + 1 / 1125899906842624"
    by blast
  have "- 16 < 10 - k" "10 - k < 16" using b by linarith+
  from js_sub_small [OF this] obtain s1 where s1: "js_sub (Fin 10) (Fin k) = Fin s1"
    "10 - k - 1 / 1125899906842624 \<le> s1" "s1 \<le> 10 - k + 1 / 1125899906842624"
    by blast
  have "- 16 < s1 * (5404319552844595 / 18014398509481984)"
    "s1 * (5404319552844595 / 18014398509481984) < 16"
    using b s1(2,3) by linarith+
  from js_mul_small [OF this] obtain a2 where a2:
    "js_mul (Fin s1) (Fin (5404319552844595 / 18014398509481984)) = Fin a2"
    "s1 * (5404319552844595 / 18014398509481984) - 1 / 1125899906842624 \<le> a2"
    "a2 \<le> s1 * (5404319552844595 / 18014398509481984) + 1 / 1125899906842624"
    by blast
  have "- 16 < t1 + a2" "t1 + a2 < 16" using b a1(2,3) t1(2,3) s1(2,3) a2(2,3) by linarith+
  from js_add_small [OF this] obtain t2 where t2: "js_add (Fin t1) (Fin a2) = Fin t2"
    "t1 + a2 - 1 / 1125899906842624 \<le> t2" "t2 \<le> t1 + a2 + 1 / 1125899906842624"
    by blast
  have "- 16 < c * (3602879701896397 / 18014398509481984)"
    "c * (3602879701896397 / 18014398509481984) < 16"
    using b by linarith+
  from js_mul_small [OF this] obtain a3 where a3:
    "js_mul (Fin c) (Fin (3602879701896397 / 18014398509481984)) = Fin a3"
    "c * (3602879701896397 / 18014398509481984) - 1 / 1125899906842624 \<le> a3"
    "a3 \<le> c * (3602879701896397 / 18014398509481984) + 1 / 1125899906842624"
    by blast
  have "- 16 < t2 + a3" "t2 + a3 < 16"
    using b a1(2,3) t1(2,3) s1(2,3) a2(2,3) t2(2,3) a3(2,3) by linarith+
  from js_add_small [OF this] obtain t3 where t3: "js_add (Fin t2) (Fin a3) = Fin t3"
    "t2 + a3 - 1 / 1125899906842624 \<le> t3" "t3 \<le> t2 + a3 + 1 / 1125899906842624"
    by blast
  have "- 16 < p * (1 / 4)" "p * (1 / 4) < 16" using b by linarith+
  from js_mul_small [OF this] obtain a4 where a4: "js_mul (Fin p) (Fin (1 / 4)) = Fin a4"
    "p * (1 / 4) - 1 / 1125899906842624 \<le> a4" "a4 \<le> p * (1 / 4) + 1 / 1125899906842624"
    by blast
  have "- 16 < t3 + a4" "t3 + a4 < 16"
    using b a1(2,3) t1(2,3) s1(2,3) a2(2,3) t2(2,3) a3(2,3) t3(2,3) a4(2,3) by linarith+
  from js_add_small [OF this] obtain t4 where t4: "js_add (Fin t3) (Fin a4) = Fin t4"
    "t3 + a4 - 1 / 1125899906842624 \<le> t4" "t4 \<le> t3 + a4 + 1 / 1125899906842624"
    by blast
  have "weightedScore r = Fin t4"
    by (simp only: weightedScore_unfold [OF eqs] fl_3_10 fl_1_5 a1(1) t1(1) s1(1) a2(1) t2(1)
        a3(1) t3(1) a4(1) t4(1))
  moreover have "spec_weightedScore m k c p - 1 / 10 ^ 14 \<le> t4"
    using b a1(2,3) t1(2,3) s1(2,3) a2(2,3) t2(2,3) a3(2,3) t3(2,3) a4(2,3) t4(2,3)
    unfolding spec_weightedScore_def tolerances left_diff_distrib by linarith
  moreover have "t4 \<le> spec_weightedScore m k c p + 1 / 10 ^ 14"
    using b a1(2,3) t1(2,3) s1(2,3) a2(2,3) t2(2,3) a3(2,3) t3(2,3) a4(2,3) t4(2,3)
    unfolding spec_weightedScore_def tolerances left_diff_distrib by linarith
  ultimately show ?thesis by blast
qed

text \<open>
  The investment score is the double nearest to \<open>n / 10\<close> for an integer \<open>n\<close> between 0 and
  100, and \<open>n / 10\<close> lies within \<open>1 / 20 + 1 / 10 ^ 13\<close> of the exact weighted sum.
\<close>

lemma investment_score_bound:
  assumes eqs: "js_or (score (market r)) (Fin 7) = Fin m"
      "js_or (riskScore (risk r)) (Fin 5) = Fin k"
      "js_or (score (competitive r)) (Fin 6) = Fin c"
      "js_or (score (portfolio r)) (Fin 7) = Fin p"
    and b: "0 \<le> m" "m \<le> 10" "0 \<le> k" "k \<le> 10" "0 \<le> c" "c \<le> 10" "0 \<le> p" "p \<le> 10"
  shows "\<exists>n::int. calculateInvestmentScore r = fl (of_int n / 10) \<and> 0 \<le> n \<and> n \<le> 100
    \<and> spec_weightedScore m k c p - 1 / 20 - 1 / 10 ^ 13 \<le> of_int n / 10
    \<and> of_int n / 10 \<le> spec_weightedScore m k c p + 1 / 20 + 1 / 10 ^ 13"
proof -
  let ?S = "spec_weightedScore m k c p"
  from weightedScore_bound [OF eqs b] obtain w where w: "weightedScore r = Fin w"
    "?S - 1 / 10 ^ 14 \<le> w" "w \<le> ?S + 1 / 10 ^ 14"
    by blast
  have S: "0 \<le> ?S" "?S \<le> 10"
    using b unfolding spec_weightedScore_def left_diff_distrib by linarith+
  have "- 128 < w * 10" "w * 10 < 128" using w(2,3) S unfolding tolerances by linarith+
  from js_mul_medium [OF this] obtain z where z: "js_mul (Fin w) (Fin 10) = Fin z"
    "w * 10 - 1 / 140737488355328 \<le> z" "z \<le> w * 10 + 1 / 140737488355328"
    by blast
  define n where "n = \<lfloor>z + 1 / 2\<rfloor>"
  have n: "of_int n \<le> z + 1 / 2" "z + 1 / 2 < of_int n + 1"
    using floor_correct [of "z + 1 / 2"] by (simp_all add: n_def)
  have "0 \<le> z + 1 / 2" using w(2,3) S z(2,3) unfolding tolerances by linarith
  then have n0: "0 \<le> n" unfolding n_def by simp
  have "z + 1 / 2 < 100 + 1" using w(2,3) S z(2,3) unfolding tolerances by linarith
  then have "z + 1 / 2 < of_int 100 + 1" by simp
  then have n100: "n \<le> 100" unfolding n_def by (simp only: floor_le_iff)
  have "calculateInvestmentScore r = js_div (Fin (of_int n)) (Fin 10)"
    by (simp add: calculateInvestmentScore_def w(1) z(1) n_def)
  then have "calculateInvestmentScore r = fl (of_int n / 10)"
    by (simp add: js_arith_Fin)
  moreover have "?S - 1 / 20 - 1 / 10 ^ 13 \<le> of_int n / 10"
    using w(2,3) z(2,3) n unfolding tolerances by linarith
  moreover have "of_int n / 10 \<le> ?S + 1 / 20 + 1 / 10 ^ 13"
    using w(2,3) z(2,3) n unfolding tolerances by linarith
  ultimately show ?thesis using n0 n100 by blast
qed

lemma weights_total: "fold (\<lambda>(key, w) total. js_add total w) weights (Fin 0) = Fin 1"
  by (simp add: weights_def fl_3_10 fl_1_5 total_1 total_2 total_3 total_4)

lemma weightedScore_borderline:
  "weightedScore borderline = Fin (1674776111428403 / 281474976710656)"
  by (simp add: weightedScore_def weights_def example_defs fl_3_10 fl_1_5
      borderline_a1 borderline_t1 borderline_s1 borderline_a2 borderline_t2 borderline_a3
      borderline_t3 borderline_a4 borderline_t4)

lemma borderline_round: "Math_round (Fin (8373880557142015 / 140737488355328)) = Fin 59"
proof -
  have "\<lfloor>(8373880557142015 / 140737488355328 :: rat) + 1 / 2\<rfloor> = 59"
    by (rule floor_unique) simp_all
  then show ?thesis by (simp only: js_exact_Fin of_int_numeral)
qed

lemma calculateInvestmentScore_borderline: "calculateInvestmentScore borderline = fl (59 / 10)"
proof -
  have "calculateInvestmentScore borderline = js_div (Fin 59) (Fin 10)"
    by (simp only: calculateInvestmentScore_def weightedScore_borderline borderline_z
        borderline_round)
  then show ?thesis by (simp add: js_arith_Fin)
qed

lemma scores_roundedDown:
  "js_or (score (market roundedDown)) (Fin 7) = Fin double_5_1"
  "js_or (riskScore (risk roundedDown)) (Fin 5) = Fin 5"
  "js_or (score (competitive roundedDown)) (Fin 6) = Fin 5"
  "js_or (score (portfolio roundedDown)) (Fin 7) = Fin 5"
  by (simp_all add: roundedDown_def scored_def riskScored_def double_5_1_def)

lemma scores_nearlyEight:
  "js_or (score (market nearlyEight)) (Fin 7) = Fin double_7_996"
  "js_or (riskScore (risk nearlyEight)) (Fin 5) = Fin 2"
  "js_or (score (competitive nearlyEight)) (Fin 6) = Fin 8"
  "js_or (score (portfolio nearlyEight)) (Fin 7) = Fin 8"
  by (simp_all add: nearlyEight_def scored_def riskScored_def double_7_996_def)

lemma scores_borderline:
  "js_or (score (market borderline)) (Fin 7) = Fin 4"
  "js_or (riskScore (risk borderline)) (Fin 5) = Fin 1"
  "js_or (score (competitive borderline)) (Fin 6) = Fin 5"
  "js_or (score (portfolio borderline)) (Fin 7) = Fin 5"
  by (simp_all add: borderline_def scored_def riskScored_def)

lemma doubles_in_range: "0 \<le> double_5_1" "double_5_1 \<le> 10" "0 \<le> double_7_996" "double_7_996 \<le> 10"
  by (simp_all add: double_5_1_def double_7_996_def)

lemma sum_roundedDown:
  "spec_weightedScore double_5_1 5 5 5 = 11315294063768371 / 2251799813685248"
  by (simp add: spec_weightedScore_def double_5_1_def)

lemma sum_nearlyEight:
  "spec_weightedScore double_7_996 2 8 8 = 18012146709668299 / 2251799813685248"
  by (simp add: spec_weightedScore_def double_7_996_def)

lemma calculateInvestmentScore_roundedDown: "calculateInvestmentScore roundedDown = Fin 5"
proof -
  from investment_score_bound [OF scores_roundedDown] doubles_in_range
  obtain n :: int where n: "calculateInvestmentScore roundedDown = fl (of_int n / 10)"
    "spec_weightedScore double_5_1 5 5 5 - 1 / 20 - 1 / 10 ^ 13 \<le> of_int n / 10"
    "of_int n / 10 \<le> spec_weightedScore double_5_1 5 5 5 + 1 / 20 + 1 / 10 ^ 13"
    by auto
  have "(49 :: rat) < of_int n"
    using n(2) unfolding sum_roundedDown tolerances by linarith
  then have "49 < n" by simp
  moreover have "of_int n < (51 :: rat)"
    using n(3) unfolding sum_roundedDown tolerances by linarith
  then have "n < 51" by simp
  ultimately have "n = 50" by simp
  with n(1) show ?thesis by simp
qed

text \<open>
  Claim C1, as amended. Let \<open>m\<close>, \<open>k\<close>, \<open>c\<close> and \<open>p\<close> be the market score, the risk
  score, the competitive score and the portfolio score of four outcomes, each after its
  default has replaced an absent, \<open>NaN\<close> or zero value (7, 5, 6 and 7), and let the four
  lie between 0 and 10. The investment score is the weighted sum
  \<open>0.25 m + 0.30 (10 - k) + 0.20 c + 0.25 p\<close> rounded to one decimal place: it is the
  double nearest to \<open>n / 10\<close> for an integer \<open>n\<close>, and \<open>n / 10\<close> differs from the weighted
  sum by at most \<open>0.05 + 1 / 10 ^ 12\<close>, the second term covering the rounding of the sum of
  doubles. The four weights add up to 1, also as doubles.
\<close>

theorem investment_score_is_rounded_weighted_sum:
  assumes "js_or (score (market r)) (Fin 7) = Fin m"
    and "js_or (riskScore (risk r)) (Fin 5) = Fin k"
    and "js_or (score (competitive r)) (Fin 6) = Fin c"
    and "js_or (score (portfolio r)) (Fin 7) = Fin p"
    and "0 \<le> m" "m \<le> 10" "0 \<le> k" "k \<le> 10" "0 \<le> c" "c \<le> 10" "0 \<le> p" "p \<le> 10"
  shows "(\<exists>n::int. calculateInvestmentScore r = fl (of_int n / 10)
        \<and> \<bar>of_int n / 10 - (m * (25 / 100) + (10 - k) * (30 / 100) + c * (20 / 100) + p * (25 / 100))\<bar>
            \<le> 1 / 20 + 1 / 10 ^ 12)
    \<and> fold (\<lambda>(key, w) total. js_add total w) weights (Fin 0) = Fin 1"
proof -
  from investment_score_bound [OF assms] obtain n :: int where
    n: "calculateInvestmentScore r = fl (of_int n / 10)"
      "spec_weightedScore m k c p - 1 / 20 - 1 / 10 ^ 13 \<le> of_int n / 10"
      "of_int n / 10 \<le> spec_weightedScore m k c p + 1 / 20 + 1 / 10 ^ 13"
    by blast
  have
    "\<bar>of_int n / 10 - (m * (25 / 100) + (10 - k) * (30 / 100) + c * (20 / 100) + p * (25 / 100))\<bar>
       \<le> 1 / 20 + 1 / 10 ^ 12"
    using n(2,3) unfolding spec_weightedScore_def tolerances by linarith
  with n(1) weights_total show ?thesis by blast
qed

text \<open>
  The theorem at the scores 4, 1, 5 and 5, whose weighted sum is 5.95: the sum of the
  doubles is 5.949999999999999, and the investment score is 5.9.
\<close>

theorem investment_score_is_rounded_weighted_sum_witness:
  "js_or (score (market borderline)) (Fin 7) = Fin 4
   \<and> js_or (riskScore (risk borderline)) (Fin 5) = Fin 1
   \<and> js_or (score (competitive borderline)) (Fin 6) = Fin 5
   \<and> js_or (score (portfolio borderline)) (Fin 7) = Fin 5
   \<and> calculateInvestmentScore borderline = fl (59 / 10)
   \<and> fl (59 / 10) = Fin (3321404725185741 / 562949953421312)
   \<and> (\<exists>n::int. calculateInvestmentScore borderline = fl (of_int n / 10)
        \<and> \<bar>of_int n / 10 - 595 / 100 :: rat\<bar> \<le> 1 / 20 + 1 / 10 ^ 12)"
proof -
  have "(0::rat) \<le> 4" "(4::rat) \<le> 10" "(0::rat) \<le> 1" "(1::rat) \<le> 10"
    "(0::rat) \<le> 5" "(5::rat) \<le> 10" "(0::rat) \<le> 5" "(5::rat) \<le> 10"
    by simp_all
  from investment_score_is_rounded_weighted_sum [OF scores_borderline this]
  have "\<exists>n::int. calculateInvestmentScore borderline = fl (of_int n / 10)
        \<and> \<bar>of_int n / 10 - 595 / 100 :: rat\<bar> \<le> 1 / 20 + 1 / 10 ^ 12"
    by simp
  with scores_borderline calculateInvestmentScore_borderline fl_59_10 show ?thesis by blast
qed

text \<open>
  Claim C1 as it is stated fails at \<open>roundedDown\<close>: the weighted sum of the scores 5.1, 5,
  5 and 5 is 5.025 (the sum of the doubles differs from it by \<open>1 / 10 ^ 13\<close> at most), and
  the investment score is 5.
\<close>

theorem investment_score_not_plain_sum:
  "calculateInvestmentScore roundedDown = Fin 5
   \<and> fl (51 / 10) = Fin double_5_1
   \<and> \<bar>spec_weightedScore double_5_1 5 5 5 - 5025 / 1000\<bar> \<le> 1 / 10 ^ 15
   \<and> (\<exists>w. weightedScore roundedDown = Fin w \<and> \<bar>w - 5025 / 1000\<bar> \<le> 1 / 10 ^ 13)
   \<and> calculateInvestmentScore roundedDown \<noteq> weightedScore roundedDown
   \<and> calculateInvestmentScore roundedDown \<noteq> Fin (spec_weightedScore double_5_1 5 5 5)"
proof -
  from weightedScore_bound [OF scores_roundedDown] doubles_in_range
  obtain w where w: "weightedScore roundedDown = Fin w"
    "spec_weightedScore double_5_1 5 5 5 - 1 / 10 ^ 14 \<le> w"
    "w \<le> spec_weightedScore double_5_1 5 5 5 + 1 / 10 ^ 14"
    by auto
  have s: "\<bar>spec_weightedScore double_5_1 5 5 5 - 5025 / 1000\<bar> \<le> 1 / 10 ^ 15"
    by (simp add: sum_roundedDown)
  have d: "\<bar>w - 5025 / 1000\<bar> \<le> 1 / 10 ^ 13"
    using w(2,3) s unfolding tolerances by linarith
  have "w \<noteq> 5" using d unfolding tolerances by linarith
  moreover have "spec_weightedScore double_5_1 5 5 5 \<noteq> 5"
    using s unfolding tolerances by linarith
  moreover have "fl (51 / 10) = Fin double_5_1" by (simp add: fl_51_10 double_5_1_def)
  ultimately show ?thesis
    using w(1) d s calculateInvestmentScore_roundedDown by auto
qed

subsection \<open>The recommendation\<close>

lemma decision_recommendationFor: "decision (recommendationFor s) = spec_tier s"
  by (simp add: recommendationFor_def spec_tier_def)

text \<open>A score \<open>n / 10\<close> reaches the threshold \<open>j\<close> exactly when \<open>n\<close> reaches \<open>10 j\<close>.\<close>

lemma fl_tenth_ge:
  assumes "0 \<le> n" and "n \<le> 100" and "0 \<le> j" and "j \<le> 10"
  shows "js_ge (fl (of_int n / 10)) (Fin (of_int j)) = (10 * j \<le> n)"
proof -
  have "(of_int 0 :: rat) \<le> of_int n" "(of_int n :: rat) \<le> of_int 100"
    using assms(1,2) by (simp_all only: of_int_le_iff)
  then have r: "(0 :: rat) \<le> of_int n" "(of_int n :: rat) \<le> 100" by simp_all
  then have "- 16 < (of_int n :: rat) / 10" "(of_int n :: rat) / 10 < 16" by linarith+
  from fl_small [OF this] obtain y where y: "fl (of_int n / 10) = Fin y"
    "of_int n / 10 - 1 / 1125899906842624 \<le> y" "y \<le> of_int n / 10 + 1 / 1125899906842624"
    by blast
  consider "n = 10 * j" | "n \<le> 10 * j - 1" | "10 * j + 1 \<le> n" by linarith
  then show ?thesis
  proof cases
    case 1
    then have "(of_int n :: rat) / 10 = of_int j" by simp
    moreover have "\<bar>j\<bar> < 2 ^ 53" using assms(3,4) by simp
    then have "fl (of_int j) = Fin (of_int j)" by (rule fl_int)
    ultimately show ?thesis using 1 by simp
  next
    case 2
    then have "(of_int n :: rat) \<le> of_int (10 * j - 1)" by (simp only: of_int_le_iff)
    then have "(of_int n :: rat) \<le> 10 * of_int j - 1" by simp
    with y(3) have "y < of_int j" by linarith
    moreover from 2 have "\<not> 10 * j \<le> n" by linarith
    ultimately show ?thesis by (simp add: y(1))
  next
    case 3
    then have "(of_int (10 * j + 1) :: rat) \<le> of_int n" by (simp only: of_int_le_iff)
    then have "10 * of_int j + 1 \<le> (of_int n :: rat)" by simp
    with y(2) have "of_int j \<le> y" by linarith
    moreover from 3 have "10 * j \<le> n" by linarith
    ultimately show ?thesis by (simp add: y(1))
  qed
qed

lemma spec_tier_tenth:
  assumes "0 \<le> n" and "n \<le> 100"
  shows "spec_tier (fl (of_int n / 10)) =
    (if 80 \<le> n then ''STRONG BUY'' else if 60 \<le> n then ''PROCEED WITH CAUTION'' else ''PASS'')"
  using fl_tenth_ge [OF assms, of 8] fl_tenth_ge [OF assms, of 6] by (simp add: spec_tier_def)

lemma decision_is_tier: "decision (generateRecommendation r) = spec_tier (calculateInvestmentScore r)"
  by (simp add: generateRecommendation_def decision_recommendationFor)

text \<open>The tiers in terms of the exact weighted sum, away from the two boundaries.\<close>

lemma tier_bands:
  assumes eqs: "js_or (score (market r)) (Fin 7) = Fin m"
      "js_or (riskScore (risk r)) (Fin 5) = Fin k"
      "js_or (score (competitive r)) (Fin 6) = Fin c"
      "js_or (score (portfolio r)) (Fin 7) = Fin p"
    and b: "0 \<le> m" "m \<le> 10" "0 \<le> k" "k \<le> 10" "0 \<le> c" "c \<le> 10" "0 \<le> p" "p \<le> 10"
  shows "(795 / 100 + 1 / 10 ^ 12 \<le> spec_weightedScore m k c p
          \<longrightarrow> decision (generateRecommendation r) = ''STRONG BUY'')
    \<and> (595 / 100 + 1 / 10 ^ 12 \<le> spec_weightedScore m k c p
         \<and> spec_weightedScore m k c p \<le> 795 / 100 - 1 / 10 ^ 12
          \<longrightarrow> decision (generateRecommendation r) = ''PROCEED WITH CAUTION'')
    \<and> (spec_weightedScore m k c p \<le> 595 / 100 - 1 / 10 ^ 12
          \<longrightarrow> decision (generateRecommendation r) = ''PASS'')"
proof -
  let ?S = "spec_weightedScore m k c p"
  from investment_score_bound [OF eqs b] obtain n :: int where
    n: "calculateInvestmentScore r = fl (of_int n / 10)" "0 \<le> n" "n \<le> 100"
      "?S - 1 / 20 - 1 / 10 ^ 13 \<le> of_int n / 10"
      "of_int n / 10 \<le> ?S + 1 / 20 + 1 / 10 ^ 13"
    by blast
  have d: "decision (generateRecommendation r) =
      (if 80 \<le> n then ''STRONG BUY'' else if 60 \<le> n then ''PROCEED WITH CAUTION'' else ''PASS'')"
    by (simp only: decision_is_tier n(1) spec_tier_tenth [OF n(2,3)])
  have hi: "80 \<le> n" if "795 / 100 + 1 / 10 ^ 12 \<le> ?S"
  proof -
    have "(79 :: rat) < of_int n" using that n(4) unfolding tolerances by linarith
    then show ?thesis by simp
  qed
  have mid_lo: "60 \<le> n" if "595 / 100 + 1 / 10 ^ 12 \<le> ?S"
  proof -
    have "(59 :: rat) < of_int n" using that n(4) unfolding tolerances by linarith
    then show ?thesis by simp
  qed
  have mid_hi: "\<not> 80 \<le> n" if "?S \<le> 795 / 100 - 1 / 10 ^ 12"
  proof -
    have "of_int n < (80 :: rat)" using that n(5) unfolding tolerances by linarith
    then show ?thesis by simp
  qed
  have lo: "\<not> 60 \<le> n \<and> \<not> 80 \<le> n" if "?S \<le> 595 / 100 - 1 / 10 ^ 12"
  proof -
    have "of_int n < (60 :: rat)" using that n(5) unfolding tolerances by linarith
    then have "n < 60" by simp
    then show ?thesis by simp
  qed
  show ?thesis
  proof (intro conjI impI)
    assume "795 / 100 + 1 / 10 ^ 12 \<le> ?S"
    from hi [OF this] show "decision (generateRecommendation r) = ''STRONG BUY''"
      by (simp add: d)
  next
    assume "595 / 100 + 1 / 10 ^ 12 \<le> ?S \<and> ?S \<le> 795 / 100 - 1 / 10 ^ 12"
    then have "60 \<le> n" "\<not> 80 \<le> n" using mid_lo mid_hi by blast+
    then show "decision (generateRecommendation r) = ''PROCEED WITH CAUTION''"
      by (simp add: d)
  next
    assume "?S \<le> 595 / 100 - 1 / 10 ^ 12"
    from lo [OF this] show "decision (generateRecommendation r) = ''PASS''"
      by (simp add: d)
  qed
qed

lemma decision_borderline: "decision (generateRecommendation borderline) = ''PASS''"
proof -
  have "calculateInvestmentScore borderline = fl (of_int 59 / 10)"
    by (simp add: calculateInvestmentScore_borderline)
  then show ?thesis
    using spec_tier_tenth [of 59] by (simp add: decision_is_tier)
qed

text \<open>
  Claim C2, as amended. The decision of the recommendation is the tier of the investment
  score that \<open>calculateInvestmentScore\<close> returns, the weighted sum rounded to one decimal
  place: at least 8 is STRONG BUY, at least 6 is PROCEED WITH CAUTION, anything else is
  PASS. For scores between 0 and 10 (each after its default) and in terms of their exact
  weighted sum, the tier is STRONG BUY from \<open>7.95 + 1 / 10 ^ 12\<close> on, PROCEED WITH
  CAUTION between \<open>5.95 + 1 / 10 ^ 12\<close> and \<open>7.95 - 1 / 10 ^ 12\<close>, and PASS up to
  \<open>5.95 - 1 / 10 ^ 12\<close>; nearer to 7.95 or to 5.95 the rounding of the sum of doubles
  decides.
\<close>

theorem recommendation_tier_of_rounded_score:
  "decision (generateRecommendation r) = spec_tier (calculateInvestmentScore r)
   \<and> (\<forall>m k c p.
        js_or (score (market r)) (Fin 7) = Fin m \<and> js_or (riskScore (risk r)) (Fin 5) = Fin k
        \<and> js_or (score (competitive r)) (Fin 6) = Fin c
        \<and> js_or (score (portfolio r)) (Fin 7) = Fin p
        \<and> 0 \<le> m \<and> m \<le> 10 \<and> 0 \<le> k \<and> k \<le> 10 \<and> 0 \<le> c \<and> c \<le> 10 \<and> 0 \<le> p \<and> p \<le> 10
        \<longrightarrow>
          (795 / 100 + 1 / 10 ^ 12 \<le> spec_weightedScore m k c p
             \<longrightarrow> decision (generateRecommendation r) = ''STRONG BUY'')
          \<and> (595 / 100 + 1 / 10 ^ 12 \<le> spec_weightedScore m k c p
               \<and> spec_weightedScore m k c p \<le> 795 / 100 - 1 / 10 ^ 12
             \<longrightarrow> decision (generateRecommendation r) = ''PROCEED WITH CAUTION'')
          \<and> (spec_weightedScore m k c p \<le> 595 / 100 - 1 / 10 ^ 12
             \<longrightarrow> decision (generateRecommendation r) = ''PASS''))"
proof (intro conjI allI impI)
  show "decision (generateRecommendation r) = spec_tier (calculateInvestmentScore r)"
    by (rule decision_is_tier)
next
  fix m k c p
  assume "js_or (score (market r)) (Fin 7) = Fin m \<and> js_or (riskScore (risk r)) (Fin 5) = Fin k
        \<and> js_or (score (competitive r)) (Fin 6) = Fin c
        \<and> js_or (score (portfolio r)) (Fin 7) = Fin p
        \<and> 0 \<le> m \<and> m \<le> 10 \<and> 0 \<le> k \<and> k \<le> 10 \<and> 0 \<le> c \<and> c \<le> 10 \<and> 0 \<le> p \<and> p \<le> 10"
    and "795 / 100 + 1 / 10 ^ 12 \<le> spec_weightedScore m k c p"
  then show "decision (generateRecommendation r) = ''STRONG BUY''"
    using tier_bands [of r m k c p] by blast
next
  fix m k c p
  assume "js_or (score (market r)) (Fin 7) = Fin m \<and> js_or (riskScore (risk r)) (Fin 5) = Fin k
        \<and> js_or (score (competitive r)) (Fin 6) = Fin c
        \<and> js_or (score (portfolio r)) (Fin 7) = Fin p
        \<and> 0 \<le> m \<and> m \<le> 10 \<and> 0 \<le> k \<and> k \<le> 10 \<and> 0 \<le> c \<and> c \<le> 10 \<and> 0 \<le> p \<and> p \<le> 10"
    and "595 / 100 + 1 / 10 ^ 12 \<le> spec_weightedScore m k c p
         \<and> spec_weightedScore m k c p \<le> 795 / 100 - 1 / 10 ^ 12"
  then show "decision (generateRecommendation r) = ''PROCEED WITH CAUTION''"
    using tier_bands [of r m k c p] by blast
next
  fix m k c p
  assume "js_or (score (market r)) (Fin 7) = Fin m \<and> js_or (riskScore (risk r)) (Fin 5) = Fin k
        \<and> js_or (score (competitive r)) (Fin 6) = Fin c
        \<and> js_or (score (portfolio r)) (Fin 7) = Fin p
        \<and> 0 \<le> m \<and> m \<le> 10 \<and> 0 \<le> k \<and> k \<le> 10 \<and> 0 \<le> c \<and> c \<le> 10 \<and> 0 \<le> p \<and> p \<le> 10"
    and "spec_weightedScore m k c p \<le> 595 / 100 - 1 / 10 ^ 12"
  then show "decision (generateRecommendation r) = ''PASS''"
    using tier_bands [of r m k c p] by blast
qed

text \<open>
  The theorem at the scores 5.1, 5, 5 and 5, whose weighted sum 5.025 lies in the lowest
  band. At the scores 4, 1, 5 and 5 the weighted sum is 5.95, in none of the bands, and
  the decision is PASS.
\<close>

theorem recommendation_tier_of_rounded_score_witness:
  "js_or (score (market roundedDown)) (Fin 7) = Fin double_5_1
   \<and> js_or (riskScore (risk roundedDown)) (Fin 5) = Fin 5
   \<and> js_or (score (competitive roundedDown)) (Fin 6) = Fin 5
   \<and> js_or (score (portfolio roundedDown)) (Fin 7) = Fin 5
   \<and> 0 \<le> double_5_1 \<and> double_5_1 \<le> 10
   \<and> spec_weightedScore double_5_1 5 5 5 \<le> 595 / 100 - 1 / 10 ^ 12
   \<and> decision (generateRecommendation roundedDown) = ''PASS''
   \<and> spec_tier (calculateInvestmentScore roundedDown) = ''PASS''
   \<and> spec_weightedScore 4 1 5 5 = 595 / 100
   \<and> decision (generateRecommendation borderline) = ''PASS''"
proof -
  have s: "spec_weightedScore double_5_1 5 5 5 \<le> 595 / 100 - 1 / 10 ^ 12"
    by (simp add: sum_roundedDown)
  have "js_or (score (market roundedDown)) (Fin 7) = Fin double_5_1
      \<and> js_or (riskScore (risk roundedDown)) (Fin 5) = Fin 5
      \<and> js_or (score (competitive roundedDown)) (Fin 6) = Fin 5
      \<and> js_or (score (portfolio roundedDown)) (Fin 7) = Fin 5
      \<and> 0 \<le> double_5_1 \<and> double_5_1 \<le> 10 \<and> (0::rat) \<le> 5 \<and> (5::rat) \<le> 10
      \<and> (0::rat) \<le> 5 \<and> (5::rat) \<le> 10 \<and> (0::rat) \<le> 5 \<and> (5::rat) \<le> 10
      \<longrightarrow> (spec_weightedScore double_5_1 5 5 5 \<le> 595 / 100 - 1 / 10 ^ 12
             \<longrightarrow> decision (generateRecommendation roundedDown) = ''PASS'')"
    using recommendation_tier_of_rounded_score [of roundedDown] by blast
  with s scores_roundedDown doubles_in_range
  have p: "decision (generateRecommendation roundedDown) = ''PASS''" by simp
  have q: "spec_tier (calculateInvestmentScore roundedDown) = ''PASS''"
    using recommendation_tier_of_rounded_score [of roundedDown] p by simp
  have "spec_weightedScore 4 1 5 5 = 595 / 100" by (simp add: spec_weightedScore_def)
  with s p q scores_roundedDown doubles_in_range decision_borderline show ?thesis by simp
qed

text \<open>
  Claim C2 as it is stated fails at \<open>nearlyEight\<close>: the weighted sum of the scores 7.996,
  2, 8 and 8 is 7.999, whose tier the claim says is PROCEED WITH CAUTION, and the
  recommendation is STRONG BUY.
\<close>

theorem tier_of_weighted_sum_7999:
  "fl (7996 / 1000) = Fin double_7_996
   \<and> \<bar>spec_weightedScore double_7_996 2 8 8 - 7999 / 1000\<bar> \<le> 1 / 10 ^ 15
   \<and> spec_tier (Fin (spec_weightedScore double_7_996 2 8 8)) = ''PROCEED WITH CAUTION''
   \<and> (\<exists>w. weightedScore nearlyEight = Fin w \<and> \<bar>w - 7999 / 1000\<bar> \<le> 1 / 10 ^ 13
        \<and> spec_tier (Fin w) = ''PROCEED WITH CAUTION'')
   \<and> decision (generateRecommendation nearlyEight) = ''STRONG BUY''"
proof -
  have r: "(0::rat) \<le> 2" "(2::rat) \<le> 10" "(0::rat) \<le> 8" "(8::rat) \<le> 10"
    "(0::rat) \<le> 8" "(8::rat) \<le> 10"
    by simp_all
  from weightedScore_bound [OF scores_nearlyEight doubles_in_range(3,4) r]
  obtain w where w: "weightedScore nearlyEight = Fin w"
    "spec_weightedScore double_7_996 2 8 8 - 1 / 10 ^ 14 \<le> w"
    "w \<le> spec_weightedScore double_7_996 2 8 8 + 1 / 10 ^ 14"
    by blast
  have s: "\<bar>spec_weightedScore double_7_996 2 8 8 - 7999 / 1000\<bar> \<le> 1 / 10 ^ 15"
    by (simp add: sum_nearlyEight)
  have d: "\<bar>w - 7999 / 1000\<bar> \<le> 1 / 10 ^ 13"
    using w(2,3) s unfolding tolerances by linarith
  have "6 \<le> w" "\<not> 8 \<le> w" using d unfolding tolerances by linarith+
  then have tw: "spec_tier (Fin w) = ''PROCEED WITH CAUTION''"
    by (simp add: spec_tier_def)
  have "6 \<le> spec_weightedScore double_7_996 2 8 8"
    "\<not> 8 \<le> spec_weightedScore double_7_996 2 8 8"
    using s unfolding tolerances by linarith+
  then have ts: "spec_tier (Fin (spec_weightedScore double_7_996 2 8 8)) = ''PROCEED WITH CAUTION''"
    by (simp add: spec_tier_def)
  have "795 / 100 + 1 / 10 ^ 12 \<le> spec_weightedScore double_7_996 2 8 8"
    using s unfolding tolerances by linarith
  with tier_bands [OF scores_nearlyEight doubles_in_range(3,4) r]
  have b: "decision (generateRecommendation nearlyEight) = ''STRONG BUY''" by blast
  have "fl (7996 / 1000) = Fin double_7_996" by (simp add: fl_7996_1000 double_7_996_def)
  with w(1) d tw ts s b show ?thesis by blast
qed

text \<open>
  Claim C10. In every synthesized report, the decision of the recommendation is the tier
  (at least 8 STRONG BUY, at least 6 PROCEED WITH CAUTION, otherwise PASS) of the
  investment score of the same report.
\<close>

theorem report_score_and_decision_agree:
  "decision (recommendation (synthesizeResults r)) = spec_tier (investmentScore (synthesizeResults r))"
  by (simp add: synthesizeResults_def generateRecommendation_def decision_recommendationFor)

subsection \<open>The key insights\<close>

lemma collected_mset:
  "mset (collectedInsights r) =
     mset (pushed (market r)) + mset (pushed (risk r)) + mset (pushed (competitive r))
       + mset (pushed (portfolio r))"
  by (simp add: collectedInsights_def)

lemma pushed_field: "pushed res = (case insights res of None \<Rightarrow> [] | Some xs \<Rightarrow> xs)"
  by (simp add: pushed_def)

lemma impactOr0_field: "impactOr0 = (\<lambda>a. case impact a of None \<Rightarrow> 0 | Some v \<Rightarrow> v)"
  by (rule ext) (simp add: impactOr0_def)

lemma extractKeyInsights_eightInsights:
  "extractKeyInsights eightInsights =
     [remark ''m1'' (Some 9), remark ''c1'' (Some 8), remark ''c2'' (Some 7),
      remark ''p1'' (Some 7), remark ''m2'' (Some 6)]"
  by (simp add: extractKeyInsights_def collectedInsights_def pushed_def impactOr0_def
      eightInsights_def scored_def riskScored_def remark_def)

text \<open>
  Claim C7. The key insights are the first five (or all, when there are fewer) of a list
  that holds exactly the insights of the four outcomes (the property \<open>insights\<close> of each,
  nothing for an outcome without it), each insight as often as it occurs in them, in
  descending order of the property \<open>impact\<close> (0 for an insight without it).
\<close>

theorem key_insights_top_five_by_impact:
  "\<exists>rest.
     mset (extractKeyInsights r @ rest) =
       mset (case insights (market r) of None \<Rightarrow> [] | Some xs \<Rightarrow> xs)
       + mset (case insights (risk r) of None \<Rightarrow> [] | Some xs \<Rightarrow> xs)
       + mset (case insights (competitive r) of None \<Rightarrow> [] | Some xs \<Rightarrow> xs)
       + mset (case insights (portfolio r) of None \<Rightarrow> [] | Some xs \<Rightarrow> xs)
     \<and> sorted_wrt
         (\<lambda>a b. (case impact b of None \<Rightarrow> 0 | Some v \<Rightarrow> v)
                  \<le> (case impact a of None \<Rightarrow> 0 | Some v \<Rightarrow> v))
         (extractKeyInsights r @ rest)
     \<and> length (extractKeyInsights r) =
         min 5 (length (case insights (market r) of None \<Rightarrow> [] | Some xs \<Rightarrow> xs)
                + length (case insights (risk r) of None \<Rightarrow> [] | Some xs \<Rightarrow> xs)
                + length (case insights (competitive r) of None \<Rightarrow> [] | Some xs \<Rightarrow> xs)
                + length (case insights (portfolio r) of None \<Rightarrow> [] | Some xs \<Rightarrow> xs))"
proof -
  let ?all = "collectedInsights r"
  let ?sorted = "sort_key (\<lambda>a. - impactOr0 a) ?all"
  have split: "extractKeyInsights r @ drop 5 ?sorted = ?sorted"
    by (simp add: extractKeyInsights_def)
  have "sorted (map (\<lambda>a. - impactOr0 a) ?sorted)"
    by (rule sorted_sort_key)
  then have "sorted_wrt (\<lambda>a b. impactOr0 b \<le> impactOr0 a) ?sorted"
    by (simp add: sorted_map)
  then have ord: "sorted_wrt
      (\<lambda>a b. (case impact b of None \<Rightarrow> 0 | Some v \<Rightarrow> v)
               \<le> (case impact a of None \<Rightarrow> 0 | Some v \<Rightarrow> v)) ?sorted"
    by (simp only: impactOr0_field)
  have len: "length (extractKeyInsights r) = min 5 (length ?all)"
    by (simp add: extractKeyInsights_def min.commute)
  have "mset (extractKeyInsights r @ drop 5 ?sorted) = mset ?all"
    by (simp only: split mset_sort)
  with ord len split show ?thesis
    by (intro exI [of _ "drop 5 ?sorted"])
      (simp add: collected_mset collectedInsights_def pushed_field)
qed

text \<open>
  The theorem at \<open>eightInsights\<close>: of the two insights of impact 7, and of the two of
  impact 6, the one that was collected first comes first (the sort is stable); the second
  insight of impact 6, the one of impact 5 and the one without an impact are cut off.
\<close>

theorem key_insights_top_five_by_impact_witness:
  "extractKeyInsights eightInsights =
     [remark ''m1'' (Some 9), remark ''c1'' (Some 8), remark ''c2'' (Some 7),
      remark ''p1'' (Some 7), remark ''m2'' (Some 6)]
   \<and> (\<exists>rest.
        mset ([remark ''m1'' (Some 9), remark ''c1'' (Some 8), remark ''c2'' (Some 7),
               remark ''p1'' (Some 7), remark ''m2'' (Some 6)] @ rest) =
          mset [remark ''m1'' (Some 9), remark ''m2'' (Some 6)] + mset [remark ''r1'' (Some 5)]
          + mset [remark ''c1'' (Some 8), remark ''c2'' (Some 7), remark ''c3'' (Some 6)]
          + mset [remark ''p1'' (Some 7), remark ''p2'' None])"
proof -
  have f: "insights (market eightInsights) = Some [remark ''m1'' (Some 9), remark ''m2'' (Some 6)]"
    "insights (risk eightInsights) = Some [remark ''r1'' (Some 5)]"
    "insights (competitive eightInsights) =
       Some [remark ''c1'' (Some 8), remark ''c2'' (Some 7), remark ''c3'' (Some 6)]"
    "insights (portfolio eightInsights) = Some [remark ''p1'' (Some 7), remark ''p2'' None]"
    by (simp_all add: eightInsights_def scored_def riskScored_def)
  from key_insights_top_five_by_impact [of eightInsights]
  obtain rest where
    "mset (extractKeyInsights eightInsights @ rest) =
       mset (case insights (market eightInsights) of None \<Rightarrow> [] | Some xs \<Rightarrow> xs)
       + mset (case insights (risk eightInsights) of None \<Rightarrow> [] | Some xs \<Rightarrow> xs)
       + mset (case insights (competitive eightInsights) of None \<Rightarrow> [] | Some xs \<Rightarrow> xs)
       + mset (case insights (portfolio eightInsights) of None \<Rightarrow> [] | Some xs \<Rightarrow> xs)"
    by blast
  then have "mset ([remark ''m1'' (Some 9), remark ''c1'' (Some 8), remark ''c2'' (Some 7),
               remark ''p1'' (Some 7), remark ''m2'' (Some 6)] @ rest) =
          mset [remark ''m1'' (Some 9), remark ''m2'' (Some 6)] + mset [remark ''r1'' (Some 5)]
          + mset [remark ''c1'' (Some 8), remark ''c2'' (Some 7), remark ''c3'' (Some 6)]
          + mset [remark ''p1'' (Some 7), remark ''p2'' None]"
    by (simp only: f extractKeyInsights_eightInsights option.case)
  with extractKeyInsights_eightInsights show ?thesis by blast
qed

subsection \<open>The percentile\<close>

lemma percentileOfRatio_range:
  "percentileOfRatio q \<in> Fin ` {95, 85, 75, 60, 40, 25, 15}"
  by (simp add: percentileOfRatio_def)

lemma percentileGuard_iff:
  "percentileGuard v b = (v \<in> {None, Some NaN, Some (Fin 0)} \<or> b \<in> {None, Some NaN, Some (Fin 0)})"
  by (auto simp: percentileGuard_def falsy_def split: option.splits)

text \<open>
  Claim C8. When the value or the benchmark of \<open>calculatePercentile\<close> is absent, zero (or
  \<open>NaN\<close>), the result is the midpoint 50. The result is always one of eight finite
  constants, never \<open>NaN\<close> or an infinity. The division is evaluated behind the guard only,
  where the benchmark is a number other than zero.
\<close>

theorem calculatePercentile_guards_division:
  "(v \<in> {None, Some NaN, Some (Fin 0)} \<or> b \<in> {None, Some NaN, Some (Fin 0)}
      \<longrightarrow> calculatePercentile v b = Fin 50)
   \<and> calculatePercentile v b \<in> Fin ` {95, 85, 75, 60, 50, 40, 25, 15}
   \<and> (\<not> percentileGuard v b \<longrightarrow>
        (\<exists>x y. v = Some x \<and> b = Some y \<and> x \<noteq> NaN \<and> y \<noteq> NaN \<and> y \<noteq> Fin 0
           \<and> calculatePercentile v b = percentileOfRatio (js_div x y)))"
proof (intro conjI impI)
  assume "v \<in> {None, Some NaN, Some (Fin 0)} \<or> b \<in> {None, Some NaN, Some (Fin 0)}"
  then have "percentileGuard v b" by (simp add: percentileGuard_iff)
  then show "calculatePercentile v b = Fin 50" by (simp add: calculatePercentile_def)
next
  show "calculatePercentile v b \<in> Fin ` {95, 85, 75, 60, 50, 40, 25, 15}"
    using percentileOfRatio_range [of "js_div (to_number v) (to_number b)"]
    by (auto simp: calculatePercentile_def)
next
  assume "\<not> percentileGuard v b"
  then show "\<exists>x y. v = Some x \<and> b = Some y \<and> x \<noteq> NaN \<and> y \<noteq> NaN \<and> y \<noteq> Fin 0
      \<and> calculatePercentile v b = percentileOfRatio (js_div x y)"
    by (auto simp: calculatePercentile_def percentileGuard_def to_number_def falsy_def
        split: option.splits)
qed

text \<open>The theorem at a zero benchmark, a zero value, an absent benchmark, and a ratio of 1.5.\<close>

theorem calculatePercentile_guards_division_witness:
  "calculatePercentile (Some (Fin 1400000)) (Some (Fin 0)) = Fin 50
   \<and> calculatePercentile (Some (Fin 0)) (Some (Fin 1400000)) = Fin 50
   \<and> calculatePercentile (Some (Fin 1400000)) None = Fin 50
   \<and> \<not> percentileGuard (Some (Fin 2100000)) (Some (Fin 1400000))
   \<and> calculatePercentile (Some (Fin 2100000)) (Some (Fin 1400000)) = Fin 85"
proof -
  have a: "calculatePercentile (Some (Fin 1400000)) (Some (Fin 0)) = Fin 50"
    using calculatePercentile_guards_division [of "Some (Fin 1400000)" "Some (Fin 0)"] by simp
  have b: "calculatePercentile (Some (Fin 0)) (Some (Fin 1400000)) = Fin 50"
    using calculatePercentile_guards_division [of "Some (Fin 0)" "Some (Fin 1400000)"] by simp
  have c: "calculatePercentile (Some (Fin 1400000)) None = Fin 50"
    using calculatePercentile_guards_division [of "Some (Fin 1400000)" None] by simp
  have d: "\<not> percentileGuard (Some (Fin 2100000)) (Some (Fin 1400000))"
    by (simp add: percentileGuard_def)
  have e: "calculatePercentile (Some (Fin 2100000)) (Some (Fin 1400000)) = Fin 85"
    using calculatePercentile_guards_division [of "Some (Fin 2100000)" "Some (Fin 1400000)"] d
    by (simp add: percentileOfRatio_def ratio_3_2)
  from a b c d e show ?thesis by simp
qed

subsection \<open>The numeric parsers\<close>

lemma parseFloat_2: "parseFloat [50] = Fin 2"
  by (simp add: string_defs Let_def)

lemma parseFloat_14: "parseFloat [49, 52] = Fin 14"
  by (simp add: string_defs Let_def)

text \<open>
  Claim C5 says that the shared parser reads \<open>$2M\<close> as 2000000. The parser of the risk
  agent (as those of the market and the portfolio agent) has no multiplier for \<open>m\<close> and
  returns 2; the parser of the document agent returns 2000, and 14 for 14L after the rupee
  sign; the parser of the competitive agent returns 2000000. The empty and the absent
  string are read as 0.
\<close>

theorem parsers_on_2M:
  "parseNumeric (Some (str ''$2M'')) = Fin 2
   \<and> parseNumericValue (Some (str ''$2M'')) = Fin 2000
   \<and> competitive_parseNumeric (Some (str ''$2M'')) = Fin 2000000
   \<and> parseNumeric (Some (rupee # str ''14L'')) = Fin 1400000
   \<and> parseNumericValue (Some (rupee # str ''14L'')) = Fin 14
   \<and> parseNumeric (Some (str '''')) = Fin 0
   \<and> parseNumeric None = Fin 0"
proof -
  have lower: "toLowerCase [36, 50, 77] = [36, 50, 109]"
    "toLowerCase [8377, 49, 52, 76] = [8377, 49, 52, 108]"
    by (simp_all add: toLowerCase_def lower_unit_def)
  have clean: "keep_digits_dots [36, 50, 77] = [50]"
    "keep_digits_dots [8377, 49, 52, 76] = [49, 52]"
    by (simp_all add: keep_digits_dots_def is_digit_def)
  have s: "str ''$2M'' = [36, 50, 77]" "rupee # str ''14L'' = [8377, 49, 52, 76]"
    "str ''cr'' = [99, 114]" "str ''l'' = [108]" "str ''k'' = [107]" "str ''m'' = [109]"
    "str ''b'' = [98]" "str '''' = []"
    by (simp_all add: str_def rupee_def)
  show ?thesis
    by (simp add: parseNumeric_def parseNumericValue_def competitive_parseNumeric_def
        s lower clean parseFloat_2 parseFloat_14 js_arith_Fin Let_def)
qed

lemma takeWhile_digit_dots: "\<forall>c\<in>set r. c = 46 \<Longrightarrow> takeWhile is_digit r = []"
  by (cases r) (simp_all add: is_digit_def)

lemma parseFloat_dots:
  assumes "\<forall>c\<in>set cl. c = (46::nat)"
  shows "parseFloat cl = NaN"
proof (cases cl)
  case Nil
  then show ?thesis by (simp add: parseFloat_def str_def Let_def)
next
  case (Cons c r)
  with assms have c: "c = 46" and r: "\<forall>c\<in>set r. c = 46" by simp_all
  have "takeWhile is_digit r = []" using r by (rule takeWhile_digit_dots)
  then show ?thesis
    by (simp add: Cons c parseFloat_def str_def is_space_def is_digit_def Let_def)
qed

lemma keep_digits_dots_no_digit:
  "\<forall>c\<in>set s. \<not> is_digit c \<Longrightarrow> \<forall>c\<in>set (keep_digits_dots s). c = 46"
  by (auto simp: keep_digits_dots_def)

text \<open>
  A string without a decimal digit is read as 0 by each of the three parsers.
\<close>

theorem parse_without_digits_is_zero:
  assumes "\<forall>c\<in>set s. \<not> is_digit c"
  shows "parseNumeric (Some s) = Fin 0 \<and> competitive_parseNumeric (Some s) = Fin 0
    \<and> parseNumericValue (Some s) = Fin 0"
proof -
  have "parseFloat (keep_digits_dots s) = NaN"
    using keep_digits_dots_no_digit [OF assms] by (rule parseFloat_dots)
  then show ?thesis
    by (simp add: parseNumeric_def competitive_parseNumeric_def parseNumericValue_def
        js_arith_Fin Let_def)
qed

text \<open>The theorem at the string \<open>N/A\<close>.\<close>

theorem parse_without_digits_is_zero_witness:
  "parseNumeric (Some (str ''N/A'')) = Fin 0 \<and> competitive_parseNumeric (Some (str ''N/A'')) = Fin 0
    \<and> parseNumericValue (Some (str ''N/A'')) = Fin 0"
proof -
  have "\<forall>c\<in>set (str ''N/A''). \<not> is_digit c"
    by (simp add: str_def is_digit_def)
  then show ?thesis by (rule parse_without_digits_is_zero)
qed

subsection \<open>The risk assessment agent\<close>

lemma parseGrowthRate_notSpecified: "parseGrowthRate (growthRate notSpecifiedGrowth) = NaN"
  by (simp add: notSpecifiedGrowth_def emptyRecord_def parseGrowthRate_def string_defs Let_def)

lemma fold_from_NaN:
  "fold (\<lambda>(feature, weight) total. js_add total (js_mul (feature feats) weight)) ws NaN = NaN"
  by (induction ws) auto

lemma predict_NaN:
  assumes "parseGrowthRate (growthRate d) = NaN"
  shows "predictSuccessProbability d = NaN"
proof -
  have "revenue_growth_rate (engineerFeatures d) = NaN"
    using assms by (simp add: engineerFeatures_def Let_def)
  then show ?thesis
    by (simp add: predictSuccessProbability_def mlWeights_def fold_from_NaN Let_def)
qed

lemma finalRiskScore_NaN: "calculateFinalRiskScore NaN redFlags = NaN"
  by (simp add: calculateFinalRiskScore_def Let_def)

lemma riskScore_NaN:
  assumes "parseGrowthRate (growthRate d) = NaN"
  shows "riskScore (RiskAssessmentAgent_analyze (Some d)) = Some NaN"
  using predict_NaN [OF assms] by (simp add: RiskAssessmentAgent_analyze_def finalRiskScore_NaN Let_def)

text \<open>
  Claim C3 says that every agent returns a score between 1 and 10 for every company record.
  For a record whose growth rate is the text \<open>Not specified\<close>, the risk agent returns the
  risk score \<open>NaN\<close> (with confidence 85, and no property \<open>score\<close>): the clamp
  \<open>Math.max(1, Math.min(10, x))\<close> lets \<open>NaN\<close> through.
\<close>

theorem risk_agent_score_not_a_number:
  "riskScore (RiskAssessmentAgent_analyze (Some notSpecifiedGrowth)) = Some NaN
   \<and> score (RiskAssessmentAgent_analyze (Some notSpecifiedGrowth)) = None
   \<and> confidence (RiskAssessmentAgent_analyze (Some notSpecifiedGrowth)) = Some (Fin 85)
   \<and> \<not> (js_ge NaN (Fin 1) \<and> js_le NaN (Fin 10))"
  using riskScore_NaN [OF parseGrowthRate_notSpecified]
  by (simp add: RiskAssessmentAgent_analyze_def Let_def)

subsection \<open>Runs of the orchestrator\<close>

lemmas run_defs = runMarketAnalysis_def runRiskAssessment_def runCompetitiveIntelligence_def
  runPortfolioImpact_def settle_def slot_def joined_def

lemma runs_step_AgentSettled:
  "runs (step (AgentSettled i k a) s) i =
     (case documentResult (runs s i) of
        None \<Rightarrow> runs s i
      | Some d \<Rightarrow>
          if stage (runs s i) = TasksInFlight \<and> slot k (runs s i) = None
          then fst (settle k a d (analysisStatus s) (runs s i))
          else runs s i)"
  by (simp add: Let_def case_prod_beta split: option.splits)

text \<open>An event of another run leaves the local state of a run as it is.\<close>

lemma step_other_run: "run_of e \<noteq> i \<Longrightarrow> runs (step e s) i = runs s i"
  by (cases e) (auto simp: Let_def split: option.splits prod.splits)

lemma run_inv_joined: "run_inv r \<Longrightarrow> stage r = TasksInFlight \<Longrightarrow> run_inv (joined r)"
  by (auto simp: run_inv_def joined_def settled_all_def Let_def split: option.splits)

lemma run_inv_settle:
  "run_inv r \<Longrightarrow> stage r = TasksInFlight \<Longrightarrow> run_inv (fst (settle k a d st r))"
  by (cases k; cases a) (auto simp: run_inv_def run_defs Let_def split: option.splits)

lemma run_inv_step: "run_inv (runs s i) \<Longrightarrow> run_inv (runs (step e s) i)"
proof (cases "run_of e = i")
  case False
  assume "run_inv (runs s i)"
  with False show ?thesis by (simp add: step_other_run)
next
  case True
  assume inv: "run_inv (runs s i)"
  show ?thesis
  proof (cases e)
    case (Call j cb)
    with True inv show ?thesis by (auto simp: run_inv_def split: option.splits)
  next
    case (DocumentResolved j d)
    with True inv show ?thesis by (auto simp: run_inv_def split: option.splits)
  next
    case (AgentSettled j k a)
    with True have [simp]: "j = i" by simp
    show ?thesis
      unfolding AgentSettled \<open>j = i\<close> runs_step_AgentSettled
      using inv run_inv_settle [of "runs s i" k a _ "analysisStatus s"]
      by (auto split: option.splits)
  next
    case (Joined j)
    with True inv show ?thesis by (auto simp: run_inv_joined)
  qed
qed

lemma run_inv_fold: "run_inv (runs s i) \<Longrightarrow> run_inv (runs (fold step evs s) i)"
  by (induction evs arbitrary: s) (simp_all add: run_inv_step)

lemma run_inv_constructed: "run_inv (runs constructed i)"
  by (simp add: run_inv_def constructed_def idleRun_def)

text \<open>
  Claim C6. Whatever the order of the events, when a run has returned a report, its
  document data and its four outcomes have all resolved, and the report was synthesized
  from exactly these.
\<close>

theorem synthesizer_runs_on_all_four_outcomes:
  assumes "returned (runs (exec evs constructed) i) = Some b"
  shows "\<exists>d m k c p.
      documentResult (runs (exec evs constructed) i) = Some d
      \<and> marketData (runs (exec evs constructed) i) = Some m
      \<and> riskData (runs (exec evs constructed) i) = Some k
      \<and> competitiveData (runs (exec evs constructed) i) = Some c
      \<and> portfolioData (runs (exec evs constructed) i) = Some p
      \<and> rawData b = \<lparr>document = d, market = m, risk = k, competitive = c, portfolio = p\<rparr>
      \<and> synthesizedReport b = synthesizeResults (rawData b)"
proof -
  have "run_inv (runs (exec evs constructed) i)"
    unfolding exec_def by (rule run_inv_fold) (rule run_inv_constructed)
  with assms have "settled_all (runs (exec evs constructed) i) b"
    by (simp add: run_inv_def)
  then show ?thesis by (simp add: settled_all_def)
qed

lemmas exec_defs = exec_def constructed_def idleRun_def pending_def processing_def
  runMarketAnalysis_def runRiskAssessment_def runCompetitiveIntelligence_def
  runPortfolioImpact_def settle_def slot_def joined_def agentStatus_def throws_def Let_def

lemma twoRuns_status:
  "agentStatus (exec twoRuns constructed) 0 =
     Some \<lparr>st_document = ''processing'', st_market = ''processing'', st_risk = ''completed'',
           st_competitive = ''completed'', st_portfolio = ''completed''\<rparr>"
  by (simp add: twoRuns_def exec_defs)

lemma alone_status:
  "agentStatus (exec runZeroAlone constructed) 0 =
     Some \<lparr>st_document = ''completed'', st_market = ''completed'', st_risk = ''completed'',
           st_competitive = ''completed'', st_portfolio = ''completed''\<rparr>"
  by (simp add: runZeroAlone_def twoRuns_def exec_defs)

lemma marketRejected_returned:
  "returned (runs (exec marketRejected constructed) 0) =
     Some \<lparr>rawData = \<lparr>document = emptyRecord, market = getMarketFallback emptyRecord,
                       risk = riskScored 4, competitive = scored 5, portfolio = scored 6\<rparr>,
           synthesizedReport =
             synthesizeResults \<lparr>document = emptyRecord, market = getMarketFallback emptyRecord,
                       risk = riskScored 4, competitive = scored 5, portfolio = scored 6\<rparr>\<rparr>"
  by (simp add: marketRejected_def exec_defs)

lemma marketRejected_partial:
  "returned (runs (exec (take 6 marketRejected) constructed) 0) = None"
  by (simp add: marketRejected_def exec_defs)

lemma callbackThrows_returned:
  "returned (runs (exec callbackThrows constructed) 0) =
     Some \<lparr>rawData = \<lparr>document = emptyRecord, market = getMarketFallback emptyRecord,
                       risk = riskScored 4, competitive = scored 5, portfolio = scored 6\<rparr>,
           synthesizedReport =
             synthesizeResults \<lparr>document = emptyRecord, market = getMarketFallback emptyRecord,
                       risk = riskScored 4, competitive = scored 5, portfolio = scored 6\<rparr>\<rparr>"
  by (simp add: callbackThrows_def throwsAtMarket_def exec_defs)

lemma callbackThrows_status:
  "analysisStatus (exec callbackThrows constructed) =
     \<lparr>st_document = ''completed'', st_market = ''failed'', st_risk = ''completed'',
      st_competitive = ''completed'', st_portfolio = ''completed''\<rparr>"
  by (simp add: callbackThrows_def throwsAtMarket_def exec_defs)

lemma slot_settle:
  "slot k' (fst (settle k a d st r)) =
     (if k' = k then Some (delivered (callback r) k a d) else slot k' r)"
  by (cases k; cases k'; cases a)
    (simp_all add: run_defs delivered_def fallbackOf_def throwsAt_def Let_def)

lemma settle_keeps:
  "stage (fst (settle k a d st r)) = stage r"
  "callback (fst (settle k a d st r)) = callback r"
  "documentResult (fst (settle k a d st r)) = documentResult r"
  "returned (fst (settle k a d st r)) = returned r"
  by (cases k; cases a; simp add: run_defs Let_def)+

lemma in_flight_step:
  assumes "in_flight cb d a K (runs s i)" and "k \<notin> K"
  shows "in_flight cb d a (insert k K) (runs (step (AgentSettled i k (a k)) s) i)"
  using assms unfolding runs_step_AgentSettled in_flight_def
  by (simp add: slot_settle settle_keeps)

lemma in_flight_fold:
  assumes "in_flight cb d a K (runs s i)" and "distinct ks" and "set ks \<inter> K = {}"
  shows "in_flight cb d a (K \<union> set ks)
    (runs (fold step (map (\<lambda>k. AgentSettled i k (a k)) ks) s) i)"
  using assms
proof (induction ks arbitrary: s K)
  case Nil
  then show ?case by simp
next
  case (Cons k ks)
  from Cons.prems have "k \<notin> K" by auto
  with Cons.prems(1)
  have "in_flight cb d a (insert k K) (runs (step (AgentSettled i k (a k)) s) i)"
    by (rule in_flight_step)
  moreover from Cons.prems have "distinct ks" "set ks \<inter> insert k K = {}" by auto
  ultimately have "in_flight cb d a (insert k K \<union> set ks)
      (runs (fold step (map (\<lambda>k. AgentSettled i k (a k)) ks) (step (AgentSettled i k (a k)) s)) i)"
    by (rule Cons.IH)
  then show ?case by simp
qed

lemma in_flight_start:
  assumes "\<not> throws cb ''Document Intelligence Agent activated...'' 20"
    and "\<not> throws cb ''All agents now working in parallel...'' 40"
  shows "in_flight cb d a {} (runs (fold step [Call i cb, DocumentResolved i d] constructed) i)"
  using assms
  by (simp add: in_flight_def constructed_def idleRun_def slot_def split: agentKey.splits)

lemma agentKey_UNIV: "(UNIV :: agentKey set) = {MarketKey, RiskKey, CompetitiveKey, PortfolioKey}"
  by (auto intro: agentKey.exhaust)

lemma in_flight_joined:
  assumes "in_flight cb d a UNIV r"
    and "\<not> throws cb ''Synthesizing multi-agent insights...'' 90"
    and "\<not> throws cb ''Analysis complete!'' 100"
  shows "returned (joined r) =
    Some \<lparr>rawData = \<lparr>document = d, market = delivered cb MarketKey (a MarketKey) d,
                      risk = delivered cb RiskKey (a RiskKey) d,
                      competitive = delivered cb CompetitiveKey (a CompetitiveKey) d,
                      portfolio = delivered cb PortfolioKey (a PortfolioKey) d\<rparr>,
          synthesizedReport =
            synthesizeResults \<lparr>document = d, market = delivered cb MarketKey (a MarketKey) d,
                      risk = delivered cb RiskKey (a RiskKey) d,
                      competitive = delivered cb CompetitiveKey (a CompetitiveKey) d,
                      portfolio = delivered cb PortfolioKey (a PortfolioKey) d\<rparr>\<rparr>"
proof -
  from assms(1) have "documentResult r = Some d" and "callback r = cb"
    and "slot MarketKey r = Some (delivered cb MarketKey (a MarketKey) d)"
    and "slot RiskKey r = Some (delivered cb RiskKey (a RiskKey) d)"
    and "slot CompetitiveKey r = Some (delivered cb CompetitiveKey (a CompetitiveKey) d)"
    and "slot PortfolioKey r = Some (delivered cb PortfolioKey (a PortfolioKey) d)"
    by (simp_all add: in_flight_def)
  then show ?thesis using assms(2,3) by (simp add: joined_def slot_def Let_def)
qed

text \<open>
  In whatever order the four agent promises of a run settle, when the callback does not
  throw at the four stages of \<open>analyzeStartup\<close>, the run returns, and its report is
  synthesized from what the four promises deliver.
\<close>

theorem any_completion_order:
  assumes "distinct ks" and "set ks = UNIV"
    and "\<not> throws cb ''Document Intelligence Agent activated...'' 20"
    and "\<not> throws cb ''All agents now working in parallel...'' 40"
    and "\<not> throws cb ''Synthesizing multi-agent insights...'' 90"
    and "\<not> throws cb ''Analysis complete!'' 100"
  shows "returned (runs (exec ([Call i cb, DocumentResolved i d]
            @ map (\<lambda>k. AgentSettled i k (a k)) ks @ [Joined i]) constructed) i) =
    Some \<lparr>rawData = \<lparr>document = d, market = delivered cb MarketKey (a MarketKey) d,
                      risk = delivered cb RiskKey (a RiskKey) d,
                      competitive = delivered cb CompetitiveKey (a CompetitiveKey) d,
                      portfolio = delivered cb PortfolioKey (a PortfolioKey) d\<rparr>,
          synthesizedReport =
            synthesizeResults \<lparr>document = d, market = delivered cb MarketKey (a MarketKey) d,
                      risk = delivered cb RiskKey (a RiskKey) d,
                      competitive = delivered cb CompetitiveKey (a CompetitiveKey) d,
                      portfolio = delivered cb PortfolioKey (a PortfolioKey) d\<rparr>\<rparr>"
proof -
  let ?s0 = "fold step [Call i cb, DocumentResolved i d] constructed"
  let ?s1 = "fold step (map (\<lambda>k. AgentSettled i k (a k)) ks) ?s0"
  have "in_flight cb d a {} (runs ?s0 i)"
    using assms(3,4) by (rule in_flight_start)
  then have "in_flight cb d a ({} \<union> set ks) (runs ?s1 i)"
    using assms(1) by (rule in_flight_fold) simp
  with assms(2) have all: "in_flight cb d a UNIV (runs ?s1 i)" by simp
  then have "stage (runs ?s1 i) = TasksInFlight" by (simp add: in_flight_def)
  then have "returned (runs (step (Joined i) ?s1) i) = returned (joined (runs ?s1 i))"
    by simp
  also note in_flight_joined [OF all assms(5,6)]
  finally show ?thesis
    by (simp add: exec_def)
qed

text \<open>
  The theorem at the order portfolio, risk, market, competitive, with a callback that
  throws when the risk agent and when the portfolio agent have completed, and a market
  agent that rejects: the report is synthesized from three fallbacks and the result of the
  competitive agent.
\<close>

theorem any_completion_order_witness:
  "returned (runs (exec ([Call 0 (Some (\<lambda>message percent. percent = 65 \<or> percent = 75)),
             DocumentResolved 0 emptyRecord]
            @ map (\<lambda>k. AgentSettled 0 k
                    (if k = MarketKey then Inl ''unavailable''
                     else if k = RiskKey then Inr (riskScored 4) else Inr (scored 6)))
                [PortfolioKey, RiskKey, MarketKey, CompetitiveKey]
            @ [Joined 0]) constructed) 0) =
    Some \<lparr>rawData = \<lparr>document = emptyRecord, market = getMarketFallback emptyRecord,
                      risk = getRiskFallback emptyRecord,
                      competitive = scored 6,
                      portfolio = getPortfolioFallback emptyRecord\<rparr>,
          synthesizedReport =
            synthesizeResults \<lparr>document = emptyRecord, market = getMarketFallback emptyRecord,
                      risk = getRiskFallback emptyRecord,
                      competitive = scored 6,
                      portfolio = getPortfolioFallback emptyRecord\<rparr>\<rparr>"
proof -
  let ?cb = "Some (\<lambda>message percent. percent = (65::nat) \<or> percent = 75) :: progressCallback"
  have "distinct [PortfolioKey, RiskKey, MarketKey, CompetitiveKey]"
    and "set [PortfolioKey, RiskKey, MarketKey, CompetitiveKey] = UNIV"
    and "\<not> throws ?cb ''Document Intelligence Agent activated...'' 20"
    and "\<not> throws ?cb ''All agents now working in parallel...'' 40"
    and "\<not> throws ?cb ''Synthesizing multi-agent insights...'' 90"
    and "\<not> throws ?cb ''Analysis complete!'' 100"
    by (simp_all add: agentKey_UNIV insert_commute throws_def)
  from any_completion_order [OF this, of 0 emptyRecord
      "\<lambda>k. if k = MarketKey then Inl ''unavailable''
            else if k = RiskKey then Inr (riskScored 4) else Inr (scored 6)"]
  show ?thesis by (simp add: delivered_def fallbackOf_def throwsAt_def throws_def)
qed

text \<open>
  Claim C4 says that every outcome delivered to the synthesizer, the fallbacks included,
  has a score and a confidence, a fallback with a lowered confidence and one generic
  insight. In the run \<open>callbackThrows\<close> the market agent resolves with a score of 7, a
  confidence of 80 and one insight; the callback throws inside the \<open>try\<close> block of
  \<open>runMarketAnalysis\<close>, and the market outcome that the synthesizer receives is the
  fallback of the orchestrator: a score of 5, no confidence and no insight, the status
  \<open>failed\<close>. None of the four fallbacks of the orchestrator has a confidence or an insight.
  The fallbacks of the risk, the competitive and the portfolio agent have the confidence 60
  and one insight of type \<open>fallback\<close>; the one of the market agent has the confidence 50
  and no insight.
\<close>

theorem throwing_callback_delivers_bare_fallback:
  "map_option (\<lambda>b. market (rawData b)) (returned (runs (exec callbackThrows constructed) 0))
     = Some (getMarketFallback emptyRecord)
   \<and> st_market (analysisStatus (exec callbackThrows constructed)) = ''failed''
   \<and> confidence marketResult = Some (Fin 80)
   \<and> map_option length (insights marketResult) = Some 1
   \<and> getMarketFallback d =
       \<lparr>score = Some (Fin 5), riskScore = None, confidence = None, insights = Some []\<rparr>
   \<and> getRiskFallback d =
       \<lparr>score = None, riskScore = Some (Fin 5), confidence = None, insights = Some []\<rparr>
   \<and> getCompetitiveFallback d =
       \<lparr>score = Some (Fin 5), riskScore = None, confidence = None, insights = Some []\<rparr>
   \<and> getPortfolioFallback d =
       \<lparr>score = Some (Fin 5), riskScore = None, confidence = None, insights = Some []\<rparr>
   \<and> RiskAssessmentAgent_analyze None = risk_getFallbackAnalysis
   \<and> confidence risk_getFallbackAnalysis = Some (Fin 60)
   \<and> map_option (map itype) (insights risk_getFallbackAnalysis) = Some [''fallback'']
   \<and> confidence competitive_getFallbackAnalysis = Some (Fin 60)
   \<and> map_option (map itype) (insights competitive_getFallbackAnalysis) = Some [''fallback'']
   \<and> confidence portfolio_getFallbackAnalysis = Some (Fin 60)
   \<and> map_option (map itype) (insights portfolio_getFallbackAnalysis) = Some [''fallback'']
   \<and> confidence market_getFallbackAnalysis = Some (Fin 50)
   \<and> insights market_getFallbackAnalysis = Some []"
  by (simp add: callbackThrows_returned callbackThrows_status marketResult_def scored_def
      getMarketFallback_def getRiskFallback_def
      getCompetitiveFallback_def getPortfolioFallback_def market_getFallbackAnalysis_def
      risk_getFallbackAnalysis_def competitive_getFallbackAnalysis_def
      portfolio_getFallbackAnalysis_def RiskAssessmentAgent_analyze_def)

text \<open>
  The theorem of claim C6 at the run \<open>marketRejected\<close>: its agents settle in the order
  portfolio, risk, market, competitive, and the join is tried after none, after two and
  after four of them.
\<close>

theorem synthesizer_runs_on_all_four_outcomes_witness:
  "returned (runs (exec marketRejected constructed) 0) =
     Some \<lparr>rawData = \<lparr>document = emptyRecord, market = getMarketFallback emptyRecord,
                       risk = riskScored 4, competitive = scored 5, portfolio = scored 6\<rparr>,
           synthesizedReport =
             synthesizeResults \<lparr>document = emptyRecord, market = getMarketFallback emptyRecord,
                       risk = riskScored 4, competitive = scored 5, portfolio = scored 6\<rparr>\<rparr>
   \<and> marketData (runs (exec marketRejected constructed) 0) = Some (getMarketFallback emptyRecord)
   \<and> riskData (runs (exec marketRejected constructed) 0) = Some (riskScored 4)
   \<and> competitiveData (runs (exec marketRejected constructed) 0) = Some (scored 5)
   \<and> portfolioData (runs (exec marketRejected constructed) 0) = Some (scored 6)
   \<and> returned (runs (exec (take 6 marketRejected) constructed) 0) = None"
proof -
  from synthesizer_runs_on_all_four_outcomes [OF marketRejected_returned]
  obtain d m k c p where
    "marketData (runs (exec marketRejected constructed) 0) = Some m"
    "riskData (runs (exec marketRejected constructed) 0) = Some k"
    "competitiveData (runs (exec marketRejected constructed) 0) = Some c"
    "portfolioData (runs (exec marketRejected constructed) 0) = Some p"
    "\<lparr>document = emptyRecord, market = getMarketFallback emptyRecord,
                       risk = riskScored 4, competitive = scored 5, portfolio = scored 6\<rparr>
      = \<lparr>document = d, market = m, risk = k, competitive = c, portfolio = p\<rparr>"
    by auto
  then show ?thesis
    using marketRejected_returned marketRejected_partial by simp
qed

text \<open>
  Claim C9 says that two simultaneous runs share no mutable state. In \<open>twoRuns\<close> the
  status object that run 0 returns shows its document and its market task as processing,
  though both have completed in run 0: the call of run 1 has reset the one status object
  of the orchestrator, which both runs write and which each run returns by reference. On
  its own, run 0 returns a status object that shows all five tasks as completed.
\<close>

theorem status_object_shared_between_runs:
  "agentStatus (exec twoRuns constructed) 0 =
     Some \<lparr>st_document = ''processing'', st_market = ''processing'', st_risk = ''completed'',
           st_competitive = ''completed'', st_portfolio = ''completed''\<rparr>
   \<and> agentStatus (exec runZeroAlone constructed) 0 =
     Some \<lparr>st_document = ''completed'', st_market = ''completed'', st_risk = ''completed'',
           st_competitive = ''completed'', st_portfolio = ''completed''\<rparr>
   \<and> agentStatus (exec twoRuns constructed) 0 \<noteq> agentStatus (exec runZeroAlone constructed) 0"
  by (simp add: twoRuns_status alone_status)

end
